theory Spec2Isabelle
  imports Complex_Main "HOL-Library.Sublist"
begin

section \<open>Python values as the scripts see them\<close>

text \<open>
  Every script of the repository is a black-box probe: it sends HTTP requests (package
  \<^verbatim>\<open>requests\<close>) or drives a browser (package \<^verbatim>\<open>playwright\<close>) and asserts on what comes
  back. The values the assertions inspect are the results of \<^verbatim>\<open>response.json()\<close>, that is
  Python objects built by \<^verbatim>\<open>json.loads\<close>: \<^verbatim>\<open>None\<close>, \<^verbatim>\<open>bool\<close>, \<^verbatim>\<open>int\<close>, \<^verbatim>\<open>float\<close>, \<^verbatim>\<open>str\<close>,
  \<^verbatim>\<open>list\<close> and \<^verbatim>\<open>dict\<close> with string keys. A \<^verbatim>\<open>dict\<close> is kept as the list of its items (in
  a parsed dict the keys are distinct; a lookup takes the first item with the key). A
  finite \<^verbatim>\<open>float\<close> is kept as the rational number it denotes, which is all that \<^verbatim>\<open>==\<close> and
  truth testing look at; the non-finite floats, which JSON proper does not have, are left
  out. Strings are byte strings.
\<close>

datatype json =
    JNull
  | JBool bool
  | JInt int
  | JFloat rat
  | JStr string
  | JArr "json list"
  | JObj "(string \<times> json) list"

text \<open>Truth testing (\<^verbatim>\<open>if x:\<close>, \<^verbatim>\<open>x or y\<close>, \<^verbatim>\<open>assert x\<close>).\<close>

fun truthy :: "json \<Rightarrow> bool" where
  "truthy JNull = False"
| "truthy (JBool b) = b"
| "truthy (JInt i) = (i \<noteq> 0)"
| "truthy (JFloat r) = (r \<noteq> 0)"
| "truthy (JStr s) = (s \<noteq> [])"
| "truthy (JArr xs) = (xs \<noteq> [])"
| "truthy (JObj kvs) = (kvs \<noteq> [])"

text \<open>\<^verbatim>\<open>isinstance(x, dict)\<close>, \<^verbatim>\<open>isinstance(x, list)\<close>, \<^verbatim>\<open>isinstance(x, str)\<close>.\<close>

fun is_dict :: "json \<Rightarrow> bool" where
  "is_dict (JObj kvs) = True"
| "is_dict _ = False"

fun is_list :: "json \<Rightarrow> bool" where
  "is_list (JArr xs) = True"
| "is_list _ = False"

fun is_str :: "json \<Rightarrow> bool" where
  "is_str (JStr s) = True"
| "is_str _ = False"

text \<open>
  \<^verbatim>\<open>==\<close> on parsed JSON. \<^verbatim>\<open>bool\<close> is a subclass of \<^verbatim>\<open>int\<close> and the numeric types compare by
  value, so \<^verbatim>\<open>True == 1 == 1.0\<close>; lists compare item by item; dicts compare as mappings.
\<close>

fun num_val :: "json \<Rightarrow> rat option" where
  "num_val (JBool b) = Some (if b then 1 else 0)"
| "num_val (JInt i) = Some (of_int i)"
| "num_val (JFloat r) = Some r"
| "num_val _ = None"

fun py_eq :: "json \<Rightarrow> json \<Rightarrow> bool" where
  "py_eq (JArr xs) (JArr ys) = list_all2 py_eq xs ys"
| "py_eq (JObj a) (JObj b) =
     (length a = length b \<and>
      list_all (\<lambda>(k, v). case map_of b k of None \<Rightarrow> False | Some w \<Rightarrow> py_eq v w) a)"
| "py_eq (JStr s) (JStr t) = (s = t)"
| "py_eq JNull JNull = True"
| "py_eq a b = (case (num_val a, num_val b) of (Some x, Some y) \<Rightarrow> x = y | _ \<Rightarrow> False)"



primrec str_in :: "string \<Rightarrow> string \<Rightarrow> bool" where
  "str_in t [] = (t = [])"
| "str_in t (c # cs) = (prefix t (c # cs) \<or> str_in t cs)"

text \<open>\<^verbatim>\<open>len(x)\<close>; the scripts call it only behind an \<^verbatim>\<open>isinstance\<close> test for a sized type.\<close>

fun len :: "json \<Rightarrow> nat" where
  "len (JArr xs) = length xs"
| "len (JStr s) = length s"
| "len (JObj kvs) = length kvs"
| "len _ = 0"

section \<open>Exceptions and control flow\<close>

text \<open>
  The exception classes that occur. \<^verbatim>\<open>requests.RequestException\<close> is the base class of
  \<^verbatim>\<open>ConnectionError\<close>, \<^verbatim>\<open>Timeout\<close> and \<^verbatim>\<open>HTTPError\<close>; the error of \<^verbatim>\<open>response.json()\<close> is a
  \<^verbatim>\<open>ValueError\<close>; playwright's \<^verbatim>\<open>TimeoutError\<close> is a subclass of its \<^verbatim>\<open>Error\<close>. All of them
  are subclasses of \<^verbatim>\<open>Exception\<close>.
\<close>

datatype exn =
    AssertionError
  | ConnectionError
  | Timeout
  | HTTPError
  | JSONDecodeError
  | AttributeError
  | TypeError
  | KeyError
  | IndexError
  | NameError
  | PlaywrightError
  | PlaywrightTimeoutError

fun is_RequestException :: "exn \<Rightarrow> bool" where
  "is_RequestException ConnectionError = True"
| "is_RequestException Timeout = True"
| "is_RequestException HTTPError = True"
| "is_RequestException _ = False"

fun is_ValueError :: "exn \<Rightarrow> bool" where
  "is_ValueError JSONDecodeError = True"
| "is_ValueError _ = False"

fun is_AssertionError :: "exn \<Rightarrow> bool" where
  "is_AssertionError AssertionError = True"
| "is_AssertionError _ = False"

fun is_playwright_Error :: "exn \<Rightarrow> bool" where
  "is_playwright_Error PlaywrightError = True"
| "is_playwright_Error PlaywrightTimeoutError = True"
| "is_playwright_Error _ = False"

definition is_Exception :: "exn \<Rightarrow> bool" where
  "is_Exception e = True"

text \<open>
  A block of statements is a function of the state that returns either the exception it
  raised or its value, together with the state it left behind.
\<close>

type_synonym ('a, 's) prog = "'s \<Rightarrow> (exn + 'a) \<times> 's"

definition ret :: "'a \<Rightarrow> ('a, 's) prog" where
  "ret a s = (Inr a, s)"

definition raise :: "exn \<Rightarrow> ('a, 's) prog" where
  "raise e s = (Inl e, s)"

text \<open>The value of an expression that may raise.\<close>

definition lift :: "exn + 'a \<Rightarrow> ('a, 's) prog" where
  "lift r s = (r, s)"

text \<open>One statement after another: an exception skips the rest.\<close>

definition then_do :: "('a, 's) prog \<Rightarrow> ('a \<Rightarrow> ('b, 's) prog) \<Rightarrow> ('b, 's) prog" where
  "then_do m f s = (case m s of (Inl e, s') \<Rightarrow> (Inl e, s') | (Inr a, s') \<Rightarrow> f a s')"

text \<open>\<^verbatim>\<open>try: m  except C: h\<close>, the class \<open>C\<close> given by its membership test.\<close>

definition try_except :: "('a, 's) prog \<Rightarrow> (exn \<Rightarrow> bool) \<Rightarrow> ('a, 's) prog \<Rightarrow> ('a, 's) prog" where
  "try_except m handles h s =
     (case m s of
        (Inl e, s') \<Rightarrow> if handles e then h s' else (Inl e, s')
      | (Inr a, s') \<Rightarrow> (Inr a, s'))"

text \<open>
  \<^verbatim>\<open>try: m  finally: fin\<close>. The \<^verbatim>\<open>finally\<close> block always runs; when it raises, its exception
  replaces the outcome of the \<^verbatim>\<open>try\<close> block, otherwise that outcome stands.
\<close>

definition try_finally :: "('a, 's) prog \<Rightarrow> (unit, 's) prog \<Rightarrow> ('a, 's) prog" where
  "try_finally m fin s =
     (case m s of
        (r, s') \<Rightarrow> (case fin s' of (Inl e, s'') \<Rightarrow> (Inl e, s'') | (Inr u, s'') \<Rightarrow> (r, s'')))"

section \<open>The HTTP side: requests, replies, and what a run leaves behind\<close>

datatype http_method = GET | POST | DELETE

text \<open>
  A URL written as an f-string: literal text and interpolated values. An interpolated
  value is kept as the value (\<open>Str v\<close> stands for \<^verbatim>\<open>str(v)\<close>).
\<close>

datatype url_part = Lit string | Str json

record request =
  verb :: http_method
  url :: "url_part list"
  params :: "(string \<times> string) list"
  json_payload :: "json option"
  headers :: "(string \<times> string) list"
  timeout :: nat

datatype payload = NotJson | Json json

record response =
  status_code :: int
  body :: payload

text \<open>What the target system does with one request: no connection, no answer in time, or a response.\<close>

datatype reply = NoConnection | TimedOut | Reply response

datatype status = Passed | Failed

text \<open>
  The state of a run. \<open>pending\<close> are the replies the target system will give, in the
  order of the requests (none left: the system is gone); \<open>sent\<close> are the requests made so
  far; \<open>trace\<close> is the status of every \<^verbatim>\<open>assert\<close> executed so far; \<open>uuids\<close> is the source
  of \<^verbatim>\<open>uuid.uuid4()\<close> and \<open>drawn\<close> counts the draws; \<open>locals\<close> holds the local variables
  that a \<^verbatim>\<open>finally\<close> block reads (the others are bound where they are assigned).
\<close>

record world =
  pending :: "reply list"
  sent :: "request list"
  trace :: "status list"
  uuids :: "nat \<Rightarrow> string"
  drawn :: nat
  locals :: "string \<rightharpoonup> json"

definition BASE_URL :: string where
  "BASE_URL = ''http://localhost:5173''"

definition TIMEOUT :: nat where
  "TIMEOUT = 30"

definition requests_request :: "request \<Rightarrow> (response, world) prog" where
  "requests_request rq w =
     (case pending w of
        [] \<Rightarrow> (Inl ConnectionError, w\<lparr>sent := sent w @ [rq]\<rparr>)
      | NoConnection # rs \<Rightarrow> (Inl ConnectionError, w\<lparr>pending := rs, sent := sent w @ [rq]\<rparr>)
      | TimedOut # rs \<Rightarrow> (Inl Timeout, w\<lparr>pending := rs, sent := sent w @ [rq]\<rparr>)
      | Reply r # rs \<Rightarrow> (Inr r, w\<lparr>pending := rs, sent := sent w @ [rq]\<rparr>))"

definition requests_get ::
  "url_part list \<Rightarrow> (string \<times> string) list \<Rightarrow> (string \<times> string) list \<Rightarrow> (response, world) prog" where
  "requests_get u ps hs =
     requests_request \<lparr>verb = GET, url = u, params = ps, json_payload = None, headers = hs, timeout = TIMEOUT\<rparr>"

definition requests_post ::
  "url_part list \<Rightarrow> json option \<Rightarrow> (string \<times> string) list \<Rightarrow> (response, world) prog" where
  "requests_post u j hs =
     requests_request \<lparr>verb = POST, url = u, params = [], json_payload = j, headers = hs, timeout = TIMEOUT\<rparr>"

definition requests_delete ::
  "url_part list \<Rightarrow> (string \<times> string) list \<Rightarrow> (response, world) prog" where
  "requests_delete u hs =
     requests_request \<lparr>verb = DELETE, url = u, params = [], json_payload = None, headers = hs, timeout = TIMEOUT\<rparr>"

text \<open>\<^verbatim>\<open>response.raise_for_status()\<close>: an \<^verbatim>\<open>HTTPError\<close> for the 4xx and 5xx codes.\<close>

definition raise_for_status :: "response \<Rightarrow> (unit, 's) prog" where
  "raise_for_status r =
     (if 400 \<le> status_code r \<and> status_code r < 600 then raise HTTPError else ret ())"

text \<open>\<^verbatim>\<open>response.json()\<close>.\<close>

definition response_json :: "response \<Rightarrow> (json, 's) prog" where
  "response_json r = (case body r of NotJson \<Rightarrow> raise JSONDecodeError | Json v \<Rightarrow> ret v)"

text \<open>\<^verbatim>\<open>assert c\<close>: the status goes to the trace, a failure raises.\<close>

definition py_assert :: "bool \<Rightarrow> (unit, world) prog" where
  "py_assert c w =
     (if c then (Inr (), w\<lparr>trace := trace w @ [Passed]\<rparr>)
      else (Inl AssertionError, w\<lparr>trace := trace w @ [Failed]\<rparr>))"

text \<open>\<^verbatim>\<open>assert False, ...\<close> where a value is expected (inside an \<^verbatim>\<open>except\<close> clause).\<close>

definition assert_False :: "('b, world) prog" where
  "assert_False w = (Inl AssertionError, w\<lparr>trace := trace w @ [Failed]\<rparr>)"

text \<open>\<^verbatim>\<open>str(uuid.uuid4())\<close>.\<close>

definition uuid4 :: "(string, world) prog" where
  "uuid4 w = (Inr (uuids w (drawn w)), w\<lparr>drawn := Suc (drawn w)\<rparr>)"

text \<open>
  Assignment to a local variable, its use (an unbound name raises), and
  \<^verbatim>\<open>"x" in locals()\<close>.
\<close>

definition assign :: "string \<Rightarrow> json \<Rightarrow> (unit, world) prog" where
  "assign x v w = (Inr (), w\<lparr>locals := (locals w)(x \<mapsto> v)\<rparr>)"

definition read_var :: "string \<Rightarrow> (json, world) prog" where
  "read_var x w = (case locals w x of None \<Rightarrow> (Inl NameError, w) | Some v \<Rightarrow> (Inr v, w))"

definition in_locals :: "string \<Rightarrow> (bool, world) prog" where
  "in_locals x w = (Inr (locals w x \<noteq> None), w)"

text \<open>\<^verbatim>\<open>d.get(k)\<close>: only a dict has the method; a missing key gives \<^verbatim>\<open>None\<close>.\<close>

definition py_get :: "json \<Rightarrow> string \<Rightarrow> exn + json" where
  "py_get d k =
     (case d of
        JObj kvs \<Rightarrow> Inr (case map_of kvs k of None \<Rightarrow> JNull | Some v \<Rightarrow> v)
      | _ \<Rightarrow> Inl AttributeError)"

text \<open>
  \<^verbatim>\<open>k in c\<close> for a string \<open>k\<close>: a key of a dict, an item of a list, a substring of a
  string; the other values are not iterable.
\<close>

definition py_in :: "string \<Rightarrow> json \<Rightarrow> exn + bool" where
  "py_in k c =
     (case c of
        JObj kvs \<Rightarrow> Inr (k \<in> fst ` set kvs)
      | JArr xs \<Rightarrow> Inr (list_ex (py_eq (JStr k)) xs)
      | JStr s \<Rightarrow> Inr (str_in k s)
      | _ \<Rightarrow> Inl TypeError)"

text \<open>\<^verbatim>\<open>c[k]\<close> for a string \<open>k\<close>: only a dict can be indexed by a string.\<close>

definition py_subscript :: "json \<Rightarrow> string \<Rightarrow> exn + json" where
  "py_subscript c k =
     (case c of
        JObj kvs \<Rightarrow> (case map_of kvs k of None \<Rightarrow> Inl KeyError | Some v \<Rightarrow> Inr v)
      | _ \<Rightarrow> Inl TypeError)"

text \<open>\<^verbatim>\<open>c[i]\<close> for a list \<open>c\<close> and an index \<open>i\<close> from the front.\<close>

definition py_item :: "json \<Rightarrow> nat \<Rightarrow> exn + json" where
  "py_item c i =
     (case c of
        JArr xs \<Rightarrow> if i < length xs then Inr (xs ! i) else Inl IndexError
      | _ \<Rightarrow> Inl TypeError)"

text \<open>A run from a fresh state, and what is observed of it: how it ended and the assertion statuses.\<close>

definition start :: "reply list \<Rightarrow> (nat \<Rightarrow> string) \<Rightarrow> world" where
  "start rs us = \<lparr>pending = rs, sent = [], trace = [], uuids = us, drawn = 0, locals = Map.empty\<rparr>"

definition outcome :: "(exn + 'a) \<times> 's \<Rightarrow> exn option" where
  "outcome r = (case fst r of Inl e \<Rightarrow> Some e | Inr a \<Rightarrow> None)"

definition statuses :: "(exn + 'b) \<times> world \<Rightarrow> exn option \<times> status list" where
  "statuses r = (outcome r, trace (snd r))"

section \<open>TC010: the health check\<close>





section \<open>TC001: the filtered listing\<close>

definition params_TC001 :: "(string \<times> string) list" where
  "params_TC001 = [(''status'', ''active''), (''portalId'', ''portal-123'')]"

text \<open>\<^verbatim>\<open>params[k]\<close>.\<close>

definition params_item :: "string \<Rightarrow> exn + string" where
  "params_item k = (case map_of params_TC001 k of None \<Rightarrow> Inl KeyError | Some v \<Rightarrow> Inr v)"

text \<open>Lines 35 to 42, the loop over the returned items.\<close>

primrec check_rfps :: "json list \<Rightarrow> (unit, world) prog" where
  "check_rfps [] = ret ()"
| "check_rfps (rfp # rest) =
     then_do (py_assert (is_dict rfp)) (\<lambda>_.
     then_do (lift (py_in ''status'' rfp)) (\<lambda>has_status.
     then_do (py_assert has_status) (\<lambda>_.
     then_do (lift (py_subscript rfp ''status'')) (\<lambda>st.
     then_do (lift (params_item ''status'')) (\<lambda>wanted_status.
     then_do (py_assert (py_eq st (JStr wanted_status))) (\<lambda>_.
     then_do (lift (py_in ''portalId'' rfp)) (\<lambda>has_portal.
     then_do (py_assert has_portal) (\<lambda>_.
     then_do (lift (py_subscript rfp ''portalId'')) (\<lambda>pid.
     then_do (lift (params_item ''portalId'')) (\<lambda>wanted_portal.
     then_do (py_assert (py_eq pid (JStr wanted_portal))) (\<lambda>_.
     check_rfps rest)))))))))))"

definition test_get_all_rfps_with_pagination_and_filtering :: "(unit, world) prog" where
  "test_get_all_rfps_with_pagination_and_filtering =
     then_do
       (try_except
          (then_do (requests_get [Lit BASE_URL, Lit ''/api/rfps''] params_TC001 [])
             (\<lambda>response. then_do (raise_for_status response) (\<lambda>_. ret response)))
          is_RequestException assert_False)
       (\<lambda>response.
     then_do (py_assert (status_code response = 200)) (\<lambda>_.
     then_do (try_except (response_json response) is_ValueError assert_False) (\<lambda>data.
     then_do (py_assert (is_list data)) (\<lambda>_.
     then_do (py_assert (len data \<le> 20)) (\<lambda>_.
     (case data of JArr items \<Rightarrow> check_rfps items | _ \<Rightarrow> raise TypeError))))))"

section \<open>TC003: create an RFP, read it back, ask for one that does not exist\<close>

definition HEADERS :: "(string \<times> string) list" where
  "HEADERS = [(''Content-Type'', ''application/json'')]"

definition create_rfp :: "(json, world) prog" where
  "create_rfp =
     then_do uuid4 (\<lambda>u1.
     then_do uuid4 (\<lambda>u2.
     then_do (requests_post [Lit BASE_URL, Lit ''/api/rfps'']
                (Some (JObj [(''rfpId'', JStr u1), (''title'', JStr (''Test RFP '' @ u2))])) HEADERS)
       (\<lambda>response.
     then_do (raise_for_status response) (\<lambda>_.
     then_do (py_assert (status_code response = 201)) (\<lambda>_.
     then_do (response_json response) (\<lambda>created.
     then_do (lift (py_in ''id'' created)) (\<lambda>has_id.
     then_do (py_assert has_id) (\<lambda>_.
     lift (py_subscript created ''id'')))))))))"

definition delete_rfp :: "json \<Rightarrow> (unit, world) prog" where
  "delete_rfp rfp_id = ret ()"

text \<open>Lines 36 to 41: the created RFP is read back under the id that \<open>create_rfp\<close> returned.\<close>

definition get_created_rfp :: "json \<Rightarrow> (unit, world) prog" where
  "get_created_rfp rfp_id =
     then_do (requests_get [Lit BASE_URL, Lit ''/api/rfps/'', Str rfp_id] [] HEADERS) (\<lambda>get_response.
     then_do (py_assert (status_code get_response = 200)) (\<lambda>_.
     then_do (response_json get_response) (\<lambda>rfp_details.
     then_do (py_assert (is_dict rfp_details)) (\<lambda>_.
     then_do (lift (py_get rfp_details ''id'')) (\<lambda>got.
     py_assert (py_eq got rfp_id))))))"

text \<open>Lines 43 to 46: a fresh identifier that no RFP has.\<close>

definition get_non_existent_rfp :: "(unit, world) prog" where
  "get_non_existent_rfp =
     then_do uuid4 (\<lambda>u.
     then_do (requests_get [Lit BASE_URL, Lit ''/api/rfps/'', Lit (''nonexistent-'' @ u)] [] HEADERS)
       (\<lambda>not_found_response.
     py_assert (status_code not_found_response = 404)))"

text \<open>Lines 33 to 46: the \<^verbatim>\<open>try\<close> block.\<close>

definition specific_try :: "(unit, world) prog" where
  "specific_try =
     then_do create_rfp (\<lambda>rfp_id.
     then_do (assign ''rfp_id'' rfp_id) (\<lambda>_.
     then_do (get_created_rfp rfp_id) (\<lambda>_.
     get_non_existent_rfp)))"

definition test_get_specific_rfp_by_id :: "(unit, world) prog" where
  "test_get_specific_rfp_by_id =
     then_do (assign ''rfp_id'' JNull) (\<lambda>_.
     try_finally specific_try
       (then_do (read_var ''rfp_id'') (\<lambda>rfp_id.
        if truthy rfp_id then delete_rfp rfp_id else ret ())))"

section \<open>TC004: the documents of an RFP, with cleanup\<close>

definition rfp_create_payload :: json where
  "rfp_create_payload =
     JObj [(''title'', JStr ''Test RFP for Document Retrieval''),
           (''description'', JStr ''RFP created for testing the documents retrieval endpoint.''),
           (''status'', JStr ''open''),
           (''portalId'', JStr ''test-portal-001'')]"

text \<open>Lines 19 to 39: the \<^verbatim>\<open>try\<close> block.\<close>

definition documents_try :: "(unit, world) prog" where
  "documents_try =
     then_do (requests_post [Lit BASE_URL, Lit ''/api/rfps''] (Some rfp_create_payload) HEADERS)
       (\<lambda>create_response.
     then_do (py_assert (status_code create_response = 201)) (\<lambda>_.
     then_do (response_json create_response) (\<lambda>rfp_data.
     then_do (lift (py_in ''id'' rfp_data)) (\<lambda>has_id.
     then_do (py_assert has_id) (\<lambda>_.
     then_do (lift (py_subscript rfp_data ''id'')) (\<lambda>rfp_id.
     then_do (assign ''rfp_id'' rfp_id) (\<lambda>_.
     then_do (requests_get [Lit BASE_URL, Lit ''/api/rfps/'', Str rfp_id, Lit ''/documents''] [] HEADERS)
       (\<lambda>get_docs_response.
     then_do (py_assert (status_code get_docs_response = 200)) (\<lambda>_.
     then_do (response_json get_docs_response) (\<lambda>docs_data.
     py_assert (is_list docs_data)))))))))))"

text \<open>Lines 43 to 51: the \<^verbatim>\<open>finally\<close> clause.\<close>

definition documents_cleanup :: "(unit, world) prog" where
  "documents_cleanup =
     then_do (read_var ''rfp_id'') (\<lambda>rfp_id.
     if truthy rfp_id
     then try_except
            (then_do (requests_delete [Lit BASE_URL, Lit ''/api/rfps/'', Str rfp_id] HEADERS) (\<lambda>_. ret ()))
            is_Exception (ret ())
     else ret ())"

definition test_get_documents_for_specific_rfp :: "(unit, world) prog" where
  "test_get_documents_for_specific_rfp =
     then_do (assign ''rfp_id'' JNull) (\<lambda>_.
     try_finally documents_try documents_cleanup)"

text \<open>The main body alone: the function without its \<^verbatim>\<open>finally\<close> clause.\<close>

definition documents_main :: "(unit, world) prog" where
  "documents_main = then_do (assign ''rfp_id'' JNull) (\<lambda>_. documents_try)"

section \<open>TC006: enhanced proposal generation, with cleanup\<close>

definition rfp_payload :: json where
  "rfp_payload =
     JObj [(''title'', JStr ''Test RFP for Proposal Generation''),
           (''description'', JStr ''RFP created for testing enhanced proposal generation.''),
           (''status'', JStr ''open''),
           (''portalId'', JStr ''test-portal-1'')]"

definition new_profile_payload :: json where
  "new_profile_payload =
     JObj [(''name'', JStr ''Test Company Profile''),
           (''description'', JStr ''Profile created for testing enhanced proposal generation.'')]"

text \<open>Lines 32 to 56: take the first existing company profile, or create one.\<close>

definition get_or_create_company_profile :: "(unit, world) prog" where
  "get_or_create_company_profile =
     then_do (requests_get [Lit BASE_URL, Lit ''/api/company''] [] []) (\<lambda>company_profiles_response.
     then_do (py_assert (status_code company_profiles_response = 200)) (\<lambda>_.
     then_do (response_json company_profiles_response) (\<lambda>profiles.
     if truthy profiles \<and> is_list profiles \<and> 0 < len profiles
     then then_do (lift (py_item profiles 0)) (\<lambda>first.
          then_do (lift (py_get first ''id'')) (\<lambda>found.
          assign ''company_profile_id'' found))
     else then_do (assign ''new_profile_payload'' new_profile_payload) (\<lambda>_.
          then_do (requests_post [Lit BASE_URL, Lit ''/api/company''] (Some new_profile_payload) HEADERS)
            (\<lambda>create_profile_response.
          then_do (py_assert (status_code create_profile_response = 201)) (\<lambda>_.
          then_do (response_json create_profile_response) (\<lambda>company_profile.
          then_do (lift (py_get company_profile ''id'')) (\<lambda>created.
          then_do (assign ''company_profile_id'' created) (\<lambda>_.
          py_assert (truthy created))))))))))"

text \<open>Lines 58 to 74: the call under test.\<close>

definition generate_proposal :: "json \<Rightarrow> (unit, world) prog" where
  "generate_proposal rfp_id =
     then_do (read_var ''company_profile_id'') (\<lambda>company_profile_id.
     then_do (requests_post [Lit BASE_URL, Lit ''/api/proposals/enhanced/generate'']
                (Some (JObj ((''rfpId'', rfp_id) #
                   (if truthy company_profile_id then [(''companyProfileId'', company_profile_id)] else []))))
                HEADERS)
       (\<lambda>proposal_response.
     then_do (py_assert (status_code proposal_response = 200)) (\<lambda>_.
     then_do (response_json proposal_response) (\<lambda>proposal_data.
     then_do (lift (py_get proposal_data ''sessionId'')) (\<lambda>s1.
     then_do (if truthy s1 then ret s1 else lift (py_get proposal_data ''session_id'')) (\<lambda>session_id.
     py_assert (truthy session_id \<and> is_str session_id \<and> 0 < len session_id)))))))"

text \<open>Lines 21 to 30: create the RFP whose id the call under test needs.\<close>

definition create_rfp_for_proposal :: "(json, world) prog" where
  "create_rfp_for_proposal =
     then_do (requests_post [Lit BASE_URL, Lit ''/api/rfps''] (Some rfp_payload) HEADERS) (\<lambda>rfp_response.
     then_do (py_assert (status_code rfp_response = 201)) (\<lambda>_.
     then_do (response_json rfp_response) (\<lambda>rfp_data.
     then_do (lift (py_get rfp_data ''id'')) (\<lambda>rfp_id.
     then_do (assign ''rfp_id'' rfp_id) (\<lambda>_.
     then_do (py_assert (truthy rfp_id)) (\<lambda>_.
     ret rfp_id))))))"

text \<open>Lines 21 to 74: the \<^verbatim>\<open>try\<close> block.\<close>

definition proposal_try :: "(unit, world) prog" where
  "proposal_try =
     then_do create_rfp_for_proposal (\<lambda>rfp_id.
     then_do get_or_create_company_profile (\<lambda>_.
     generate_proposal rfp_id))"

text \<open>Lines 77 to 89: the \<^verbatim>\<open>finally\<close> clause.\<close>

definition proposal_cleanup :: "(unit, world) prog" where
  "proposal_cleanup =
     then_do (read_var ''rfp_id'') (\<lambda>rfp_id.
     then_do (if truthy rfp_id
              then try_except
                     (then_do (requests_delete [Lit BASE_URL, Lit ''/api/rfps/'', Str rfp_id] []) (\<lambda>_. ret ()))
                     is_Exception (ret ())
              else ret ()) (\<lambda>_.
     then_do (read_var ''company_profile_id'') (\<lambda>company_profile_id.
     then_do (in_locals ''new_profile_payload'') (\<lambda>created_here.
     if truthy company_profile_id \<and> created_here
     then try_except
            (then_do (requests_delete [Lit BASE_URL, Lit ''/api/company/'', Str company_profile_id] [])
               (\<lambda>_. ret ()))
            is_Exception (ret ())
     else ret ()))))"

definition test_enhanced_ai_powered_proposal_generation :: "(unit, world) prog" where
  "test_enhanced_ai_powered_proposal_generation =
     then_do (assign ''rfp_id'' JNull) (\<lambda>_.
     then_do (assign ''company_profile_id'' JNull) (\<lambda>_.
     try_finally proposal_try proposal_cleanup))"

text \<open>The main body alone: the function without its \<^verbatim>\<open>finally\<close> clause.\<close>

definition proposal_main :: "(unit, world) prog" where
  "proposal_main =
     then_do (assign ''rfp_id'' JNull) (\<lambda>_.
     then_do (assign ''company_profile_id'' JNull) (\<lambda>_.
     proposal_try))"

section \<open>The browser side: a playwright session\<close>

text \<open>
  The five browser scripts share their first 47 lines and their \<^verbatim>\<open>finally\<close> clause word for
  word; they differ in the interactions in between. The three things a script acquires
  are the playwright driver, the browser and the browser context.
\<close>

datatype resource = Playwright | Browser | Context

text \<open>The awaited calls of the playwright API that the scripts make.\<close>

datatype ui_call =
    Start_playwright
  | Launch_chromium
  | New_context
  | New_page
  | Page_goto string
  | Wait_for_load_state
  | Wait_for_timeout nat
  | Elem_click string
  | Elem_fill string string
  | Page_evaluate string
  | Mouse_wheel
  | To_be_visible string nat
  | Close resource

text \<open>
  What an awaited call does: it returns, it returns the response of a navigation (of
  which the HTTP status is kept), or it raises.
\<close>

datatype ui_reply = Returns | Loaded int | Throws exn

fun returned :: "ui_reply \<Rightarrow> bool" where
  "returned (Throws e) = False"
| "returned _ = True"

text \<open>
  The state of a browser run. \<open>replies n c\<close> is what the browser does when the \<open>n\<close>-th
  awaited call of the run is \<open>c\<close>; \<open>frame_count\<close> is the length of \<^verbatim>\<open>page.frames\<close> when
  the loop of line 42 reads it; \<open>calls\<close> are the calls made so far with what they did;
  \<open>pw\<close>, \<open>browser\<close> and \<open>context_var\<close> tell whether the variable \<^verbatim>\<open>pw\<close>, \<^verbatim>\<open>browser\<close>,
  \<^verbatim>\<open>context\<close> holds an object (it is \<^verbatim>\<open>None\<close> otherwise).
\<close>

record session =
  replies :: "nat \<Rightarrow> ui_call \<Rightarrow> ui_reply"
  frame_count :: nat
  calls :: "(ui_call \<times> ui_reply) list"
  pw :: bool
  browser :: bool
  context_var :: bool

definition await :: "ui_call \<Rightarrow> (int option, session) prog" where
  "await c s =
     (let r = replies s (length (calls s)) c;
          s' = s\<lparr>calls := calls s @ [(c, r)]\<rparr>
      in case r of
           Throws e \<Rightarrow> (Inl e, s')
         | Returns \<Rightarrow> (Inr None, s')
         | Loaded n \<Rightarrow> (Inr (Some n), s'))"

text \<open>An awaited call whose value the script drops, as in \<^verbatim>\<open>await page.goto(...)\<close>.\<close>

definition awaited :: "ui_call \<Rightarrow> (unit, session) prog" where
  "awaited c = then_do (await c) (\<lambda>_. ret ())"

text \<open>The interactions between line 48 and the \<^verbatim>\<open>finally\<close> clause, one constructor for each shape of line.\<close>

datatype action =
    Goto string
  | Sleep nat
  | Click string
  | Fill string string
  | WheelBy string
  | Wheel nat
  | Expect string nat
  | ExpectOrRaise string nat string

text \<open>
  \<open>Click x\<close> is \<^verbatim>\<open>await page.wait_for_timeout(3000); await elem.click(timeout=5000)\<close> on the
  element located by \<open>x\<close>, \<open>Fill\<close> likewise; \<open>WheelBy\<close> scrolls by the value of a script;
  \<open>ExpectOrRaise\<close> is the expectation inside \<^verbatim>\<open>try\<close> whose \<^verbatim>\<open>AssertionError\<close> is raised
  again with a message of the script's own; \<^verbatim>\<open>asyncio.sleep\<close> only lets time pass.
\<close>

fun do_action :: "action \<Rightarrow> (unit, session) prog" where
  "do_action (Goto u) = awaited (Page_goto u)"
| "do_action (Sleep n) = ret ()"
| "do_action (Click x) = then_do (awaited (Wait_for_timeout 3000)) (\<lambda>_. awaited (Elem_click x))"
| "do_action (Fill x t) = then_do (awaited (Wait_for_timeout 3000)) (\<lambda>_. awaited (Elem_fill x t))"
| "do_action (WheelBy js) = then_do (await (Page_evaluate js)) (\<lambda>_. awaited Mouse_wheel)"
| "do_action (Wheel n) = awaited Mouse_wheel"
| "do_action (Expect t ms) = awaited (To_be_visible t ms)"
| "do_action (ExpectOrRaise t ms msg) =
     try_except (awaited (To_be_visible t ms)) is_AssertionError (raise AssertionError)"

primrec run_actions :: "action list \<Rightarrow> (unit, session) prog" where
  "run_actions [] = ret ()"
| "run_actions (a # rest) = then_do (do_action a) (\<lambda>_. run_actions rest)"

text \<open>Lines 36 to 39, and the same inside the loop of lines 42 to 46.\<close>

definition wait_loaded :: "(unit, session) prog" where
  "wait_loaded = try_except (awaited Wait_for_load_state) is_playwright_Error (ret ())"

primrec wait_frames :: "nat \<Rightarrow> (unit, session) prog" where
  "wait_frames 0 = ret ()"
| "wait_frames (Suc n) = then_do wait_loaded (\<lambda>_. wait_frames n)"

definition set_pw :: "bool \<Rightarrow> (unit, session) prog" where
  "set_pw v s = (Inr (), s\<lparr>pw := v\<rparr>)"

definition set_browser :: "bool \<Rightarrow> (unit, session) prog" where
  "set_browser v s = (Inr (), s\<lparr>browser := v\<rparr>)"

definition set_context :: "bool \<Rightarrow> (unit, session) prog" where
  "set_context v s = (Inr (), s\<lparr>context_var := v\<rparr>)"

text \<open>Lines 11 to 47 and the interactions: the \<^verbatim>\<open>try\<close> block.\<close>

definition session_try :: "action list \<Rightarrow> (unit, session) prog" where
  "session_try acts =
     then_do (awaited Start_playwright) (\<lambda>_.
     then_do (set_pw True) (\<lambda>_.
     then_do (awaited Launch_chromium) (\<lambda>_.
     then_do (set_browser True) (\<lambda>_.
     then_do (awaited New_context) (\<lambda>_.
     then_do (set_context True) (\<lambda>_.
     then_do (awaited New_page) (\<lambda>_.
     then_do (awaited (Page_goto ''http://localhost:5173'')) (\<lambda>_.
     then_do wait_loaded (\<lambda>_.
     then_do (\<lambda>s. wait_frames (frame_count s) s) (\<lambda>_.
     run_actions acts))))))))))"

text \<open>The \<^verbatim>\<open>finally\<close> clause: \<^verbatim>\<open>if context: await context.close()\<close> and so on.\<close>

definition close_if :: "(session \<Rightarrow> bool) \<Rightarrow> resource \<Rightarrow> (unit, session) prog" where
  "close_if var r s = (if var s then awaited (Close r) s else (Inr (), s))"

definition session_finally :: "(unit, session) prog" where
  "session_finally =
     then_do (close_if context_var Context) (\<lambda>_.
     then_do (close_if browser Browser) (\<lambda>_.
     close_if pw Playwright))"

definition run_test :: "action list \<Rightarrow> (unit, session) prog" where
  "run_test acts =
     then_do (set_pw False) (\<lambda>_.
     then_do (set_browser False) (\<lambda>_.
     then_do (set_context False) (\<lambda>_.
     try_finally (session_try acts) session_finally)))"

text \<open>The main body alone: \<open>run_test\<close> without its \<^verbatim>\<open>finally\<close> clause.\<close>

definition session_main :: "action list \<Rightarrow> (unit, session) prog" where
  "session_main acts =
     then_do (set_pw False) (\<lambda>_.
     then_do (set_browser False) (\<lambda>_.
     then_do (set_context False) (\<lambda>_.
     session_try acts)))"

text \<open>A fresh run against a browser that behaves as \<open>env\<close> says.\<close>

definition launch :: "(nat \<Rightarrow> ui_call \<Rightarrow> ui_reply) \<Rightarrow> nat \<Rightarrow> session" where
  "launch env n = \<lparr>replies = env, frame_count = n, calls = [], pw = False, browser = False, context_var = False\<rparr>"

text \<open>What a run acquired and what it released, in the order in which it did, read off the calls.\<close>

fun acquires :: "ui_call \<times> ui_reply \<Rightarrow> resource option" where
  "acquires (Start_playwright, r) = (if returned r then Some Playwright else None)"
| "acquires (Launch_chromium, r) = (if returned r then Some Browser else None)"
| "acquires (New_context, r) = (if returned r then Some Context else None)"
| "acquires _ = None"

fun releases :: "ui_call \<times> ui_reply \<Rightarrow> resource option" where
  "releases (Close x, r) = (if returned r then Some x else None)"
| "releases _ = None"

definition acquired :: "(ui_call \<times> ui_reply) list \<Rightarrow> resource list" where
  "acquired cs = List.map_filter acquires cs"

definition released :: "(ui_call \<times> ui_reply) list \<Rightarrow> resource list" where
  "released cs = List.map_filter releases cs"

subsection \<open>The interactions of each browser script\<close>

definition body_TC002 :: "action list" where
  "body_TC002 =
    [Click ''xpath=html/body/div/div[3]/div[2]/main/div/div[3]/div[2]/div/div/div/div[2]/button[2]'',
     Fill ''xpath=html/body/div[3]/form/div/div/input'' ''https://www.beaconbid.com/solicitations/city-of-houston/a03e5701-7cba-41b8-b889-daea331fb556/multi-year-public-facing-regional-websites'',
     Fill ''xpath=html/body/div[3]/form/div/div[2]/textarea'' ''Multi-year public-facing regional websites for City of Houston'',
     Click ''xpath=html/body/div[3]/button'',
     Click ''xpath=html/body/div/div[3]/div[2]/main/div/div[3]/div[2]/div/div/div/div[2]/button[2]'',
     Click ''xpath=html/body/div[3]/form/div[2]/button[2]'',
     Click ''xpath=html/body/div/div[3]/div[2]/main/div/div[3]/div[2]/div/div/div/div[2]/button[2]'',
     Fill ''xpath=html/body/div[3]/form/div/div/input'' ''htp:/invalid-url'',
     Click ''xpath=html/body/div[3]/button'',
     Click ''xpath=html/body/div/div[3]/div[2]/main/div/div[3]/div[2]/div/div/div/div[2]/button[2]'',
     Click ''xpath=html/body/div[3]/form/div[2]/button[2]'',
     Expect ''text=Single Family Home Development at Stella Link'' 30000,
     Expect ''text=City of Houston, Texas'' 30000,
     Expect ''text=Pending Review'' 30000,
     Expect ''text=No deadline set'' 30000,
     Expect ''text=Not set'' 30000,
     Expect ''text=90% complete'' 30000,
     Expect ''text=Monitor and manage your automated RFP workflow in real-time'' 30000,
     Expect ''text=RFP Dashboard'' 30000,
     Sleep 5]"

definition message_TC003 :: string where
  "message_TC003 =
     ''Test failed: Enhanced AI proposal generation for valid RFP ID did not start as e'' @
     ''xpected. Response status code was not 202 or real-time SSE updates with proposal'' @
     '' sections and quality scores meeting threshold were not received.''"

definition body_TC003 :: "action list" where
  "body_TC003 =
    [Goto ''http://localhost:5001/api/proposals/enhanced/generate'',
     Sleep 3,
     Goto ''http://localhost:5173'',
     Sleep 3,
     Click ''xpath=html/body/div/div[3]/div/nav/a[10]'',
     Click ''xpath=html/body/div/div[3]/div[2]/main/div/div[2]/div[2]/div/div/div/div/div[2]/button[2]'',
     WheelBy ''() => window.innerHeight'',
     Fill ''xpath=html/body/div[3]/form/div/div/input'' ''IBYTE'',
     Fill ''xpath=html/body/div[3]/form/div[2]/div[2]/input'' ''https://example.com'',
     Click ''xpath=html/body/div[3]/form/div[5]/button'',
     Goto ''http://localhost:5001/api/proposals/enhanced/generate'',
     Sleep 3,
     Goto ''http://localhost:5173'',
     Sleep 3,
     Goto ''http://localhost:5001/api/proposals/enhanced/generate'',
     Sleep 3,
     Goto ''http://localhost:5173'',
     Sleep 3,
     Click ''xpath=html/body/div/div[3]/div/nav/a[7]'',
     Click ''xpath=html/body/div/div[3]/div[2]/main/div/div[2]/div/div[2]/div/div'',
     Click ''xpath=html/body/div/div[3]/div[2]/main/div/div[2]/div[2]/div/div/div[2]/button'',
     Click ''xpath=html/body/div/div[3]/div/nav/a[10]'',
     Click ''xpath=html/body/div/div[3]/div[2]/main/div/div[2]/div[2]/div/div/div/div/div[2]/button[2]'',
     Click ''xpath=html/body/div[3]/button'',
     Click ''xpath=html/body/div/div[3]/div[2]/main/div/div[2]/div[2]/div/div/div/div/div[2]/button[2]'',
     Fill ''xpath=html/body/div[3]/form/div/div/input'' ''IBYTE'',
     Fill ''xpath=html/body/div[3]/form/div[2]/div[2]/input'' ''https://example.com'',
     Click ''xpath=html/body/div[3]/form/div[5]/button'',
     Click ''xpath=html/body/div/div[3]/div/nav/a[7]'',
     Click ''xpath=html/body/div/div[3]/div[2]/main/div/div[2]/div/div[2]/div/div'',
     Click ''xpath=html/body/div/div[3]/div[2]/main/div/div[2]/div[2]/div/div/div[2]/button'',
     Click ''xpath=html/body/div/div[3]/div/nav/a[10]'',
     Click ''xpath=html/body/div/div[3]/div[2]/main/div/div[2]/div[2]/div/div/div/div/div[2]/button[2]'',
     Click ''xpath=html/body/div[3]/form/div[5]/button'',
     Click ''xpath=html/body/div/div[3]/div[2]/main/div/div[2]/div[2]/div/div/div/div/div[2]/button[2]'',
     Fill ''xpath=html/body/div[3]/form/div/div/input'' ''IBYTE'',
     Fill ''xpath=html/body/div[3]/form/div[2]/div[2]/input'' ''https://example.com'',
     Click ''xpath=html/body/div[3]/form/div[5]/button'',
     Click ''xpath=html/body/div/div[3]/div/nav/a[5]'',
     Click ''xpath=html/body/div/div[3]/div/nav/a[10]'',
     Click ''xpath=html/body/div/div[3]/div[2]/main/div/div[2]/div[2]/div/div/div/div/div[2]/button[2]'',
     Click ''xpath=html/body/div[3]/form/div[5]/button'',
     Click ''xpath=html/body/div/div[3]/div[2]/main/div/div[2]/div[2]/div/div/div/div/div[2]/button[2]'',
     Click ''xpath=html/body/div[3]/form/div[5]/button'',
     Click ''xpath=html/body/div/div[3]/div[2]/main/div/div[2]/div[2]/div/div/div/div/div[2]/button[2]'',
     Click ''xpath=html/body/div[3]/form/div[5]/button'',
     Click ''xpath=html/body/div/div[3]/div[2]/main/div/div[2]/div[2]/div/div/div/div/div[2]/button[2]'',
     Click ''xpath=html/body/div[3]/form/div[5]/button'',
     Click ''xpath=html/body/div/div[3]/div[2]/main/div/div[2]/div[2]/div/div/div/div/div[2]/button[2]'',
     Click ''xpath=html/body/div[3]/form/div[5]/button'',
     Click ''xpath=html/body/div/div[3]/div/nav/a[10]'',
     ExpectOrRaise ''text=Proposal generation successful with quality threshold met'' 1000 message_TC003,
     Sleep 5]"

definition message_TC005 :: string where
  "message_TC005 =
     ''Test case failed: The submission pipeline execution has failed. The pipeline did'' @
     '' not start successfully with the valid submission ID, portal credentials includi'' @
     ''ng MFA, and browser options as required by the test plan.''"

definition body_TC005 :: "action list" where
  "body_TC005 =
    [Click ''xpath=html/body/div/div[3]/div[2]/main/div/div[3]/div[2]/div/div/div/div[2]/button[2]'',
     Fill ''xpath=html/body/div[3]/form/div/div/input'' ''https://www.beaconbid.com/solicitations/city-of-houston/a03e5701-7cba-41b8-b889-daea331fb556/multi-year-public-facing-regional-websites'',
     Fill ''xpath=html/body/div[3]/form/div/div[2]/textarea'' ''Multi-year public-facing regional websites for City of Houston'',
     Click ''xpath=html/body/div[3]/button'',
     Click ''xpath=html/body/div/div[3]/div[2]/main/div/div[3]/div[2]/div/div/div/div[2]/button[2]'',
     Click ''xpath=html/body/div[3]/form/div[2]/button[2]'',
     Click ''xpath=html/body/div[3]/div[2]/div[6]/div/div/button'',
     Click ''xpath=html/body/div/div[3]/div[2]/main/div/div[3]/div[2]/div/div/div/div[2]/button[2]'',
     Fill ''xpath=html/body/div[3]/form/div/div/input'' ''https://www.beaconbid.com/solicitations/city-of-houston/a03e5701-7cba-41b8-b889-daea331fb556/multi-year-public-facing-regional-websites'',
     Fill ''xpath=html/body/div[3]/form/div/div[2]/textarea'' ''Multi-year public-facing regional websites for City of Houston'',
     Click ''xpath=html/body/div[3]/button'',
     Click ''xpath=html/body/div/div[3]/div[2]/main/div/div[3]/div[2]/div/div/div/div[2]/button[2]'',
     Click ''xpath=html/body/div[3]/form/div[2]/button[2]'',
     ExpectOrRaise ''text=Submission Pipeline Completed Successfully'' 1000 message_TC005,
     Sleep 5]"

definition message_TC007 :: string where
  "message_TC007 =
     ''Test case failed: The scan progress was not delivered in real-time via SSE as ex'' @
     ''pected after triggering the scan with valid portalId and sessionId.''"

definition body_TC007 :: "action list" where
  "body_TC007 =
    [Goto ''http://localhost:5001/api/scans/trigger'',
     Sleep 3,
     Goto ''http://localhost:5001/api'',
     Sleep 3,
     Goto ''http://localhost:5001/api/scans/trigger'',
     Sleep 3,
     Goto ''http://localhost:5001/api'',
     Sleep 3,
     Goto ''http://localhost:5001/api/scans/events?portalId=validPortalId&sessionId=validSessionId'',
     Sleep 3,
     Goto ''http://localhost:5001/api/docs'',
     Sleep 3,
     Goto ''http://localhost:5001/'',
     Sleep 3,
     Goto ''http://localhost:5001/api/scans/progress?portalId=validPortalId&sessionId=validSessionId'',
     Sleep 3,
     Goto ''http://localhost:5001/api/scans/stream?portalId=validPortalId&sessionId=validSessionId'',
     Sleep 3,
     ExpectOrRaise ''text=Scan completed successfully'' 1000 message_TC007,
     Sleep 5]"

definition message_TC008 :: string where
  "message_TC008 =
     ''Test case failed: AI-powered parsing of uploaded PDF/Word RFP documents did not '' @
     ''extract meaningful requirements or generate compliance checklists accurately as '' @
     ''expected.''"

definition body_TC008 :: "action list" where
  "body_TC008 =
    [Click ''xpath=html/body/div/div[3]/div[2]/main/div/div[3]/div[2]/div/div/div/div[2]/button[2]'',
     Fill ''xpath=html/body/div[3]/form/div/div/input'' ''https://www.beaconbid.com/solicitations/city-of-houston/a03e5701-7cba-41b8-b889-daea331fb556/multi-year-public-facing-regional-websites'',
     Click ''xpath=html/body/div[3]/button'',
     Click ''xpath=html/body/div/div[3]/div[2]/main/div/div[3]/div[2]/div/div/div/div[2]/button[2]'',
     Click ''xpath=html/body/div[3]/form/div[2]/button[2]'',
     Click ''xpath=html/body/div/div[3]/div[2]/main/div/div[3]/div[2]/div/div[2]/div/table/tbody/tr/td[6]/div/a/button'',
     Wheel 400,
     Goto ''http://localhost:5001/api/documents/d1c509e8-b1c7-4a4c-aea7-53aae4c3b330/parse'',
     Sleep 3,
     Goto ''http://localhost:5001/api/documents/d1c509e8-b1c7-4a4c-aea7-53aae4c3b330/parse'',
     Sleep 3,
     ExpectOrRaise ''text=AI Parsing Successful'' 1000 message_TC008,
     Sleep 5]"

section \<open>A script as a process\<close>

text \<open>
  Every file ends with a call of its function at module level
  (\<^verbatim>\<open>test_...()\<close>, \<^verbatim>\<open>asyncio.run(run_test())\<close>) with no handler around it: an exception that
  leaves the function ends the interpreter with a traceback.
\<close>

datatype exit_status = ExitSuccess | UncaughtException exn

definition python_script :: "(unit, 's) prog \<Rightarrow> 's \<Rightarrow> exit_status" where
  "python_script main s = (case fst (main s) of Inl e \<Rightarrow> UncaughtException e | Inr u \<Rightarrow> ExitSuccess)"

section \<open>What the claims compare the code with\<close>


text \<open>An item passes the loop body when it is an object with both filter fields as requested.\<close>

definition matches_filters :: "json \<Rightarrow> bool" where
  "matches_filters item \<longleftrightarrow>
     (\<exists>kvs. item = JObj kvs \<and> map_of kvs ''status'' = Some (JStr ''active'') \<and>
            map_of kvs ''portalId'' = Some (JStr ''portal-123''))"

text \<open>A statement keeps a property of the state when the property survives running it.\<close>

definition keeps :: "('s \<Rightarrow> bool) \<Rightarrow> ('a, 's) prog \<Rightarrow> bool" where
  "keeps P m \<longleftrightarrow> (\<forall>s. P s \<longrightarrow> P (snd (m s)))"

text \<open>The two kinds of request that TC003 sends.\<close>

definition create_request :: "string \<Rightarrow> string \<Rightarrow> request" where
  "create_request u1 u2 =
     \<lparr>verb = POST, url = [Lit BASE_URL, Lit ''/api/rfps''], params = [],
      json_payload = Some (JObj [(''rfpId'', JStr u1), (''title'', JStr (''Test RFP '' @ u2))]),
      headers = HEADERS, timeout = TIMEOUT\<rparr>"

definition get_request :: "url_part \<Rightarrow> request" where
  "get_request p =
     \<lparr>verb = GET, url = [Lit BASE_URL, Lit ''/api/rfps/'', p], params = [],
      json_payload = None, headers = HEADERS, timeout = TIMEOUT\<rparr>"



text \<open>
  Two states are alike when they hold the same pending replies, the same assertion
  statuses and the same local variables (the requests sent and the uuids may differ); two
  statements agree when, run from like states, they end the same way in like states.
\<close>

definition sim :: "world \<Rightarrow> world \<Rightarrow> bool" where
  "sim w w' \<longleftrightarrow> pending w = pending w' \<and> trace w = trace w' \<and> locals w = locals w'"

definition agree :: "('a, world) prog \<Rightarrow> ('a, world) prog \<Rightarrow> bool" where
  "agree m m' \<longleftrightarrow> (\<forall>w w'. sim w w' \<longrightarrow> fst (m w) = fst (m' w') \<and> sim (snd (m w)) (snd (m' w')))"

text \<open>The calls that neither acquire nor release: all but the three acquisitions and the closes.\<close>

fun interaction :: "ui_call \<Rightarrow> bool" where
  "interaction Start_playwright = False"
| "interaction Launch_chromium = False"
| "interaction New_context = False"
| "interaction (Close x) = False"
| "interaction _ = True"

text \<open>Lines 30 onwards of the \<^verbatim>\<open>try\<close> block: what runs once the three acquisitions are made.\<close>

definition session_rest :: "action list \<Rightarrow> (unit, session) prog" where
  "session_rest acts =
     then_do (awaited New_page) (\<lambda>_.
     then_do (awaited (Page_goto ''http://localhost:5173'')) (\<lambda>_.
     then_do wait_loaded (\<lambda>_.
     then_do (\<lambda>s. wait_frames (frame_count s) s) (\<lambda>_.
     run_actions acts))))"

text \<open>
  The state in which the \<^verbatim>\<open>try\<close> block ends: each variable is bound exactly when its
  acquisition returned, the acquisitions stop at the first that raises, nothing is released.
\<close>

definition ended :: "(nat \<Rightarrow> ui_call \<Rightarrow> ui_reply) \<Rightarrow> resource list \<Rightarrow> bool \<Rightarrow> bool \<Rightarrow> bool \<Rightarrow> session \<Rightarrow> bool" where
  "ended env A a b c t \<longleftrightarrow>
     replies t = env \<and> acquired (calls t) = A \<and> released (calls t) = [] \<and>
     pw t = a \<and> browser t = b \<and> context_var t = c"

text \<open>What a run has acquired, by the replies to the three acquisitions.\<close>

definition got :: "(nat \<Rightarrow> ui_call \<Rightarrow> ui_reply) \<Rightarrow> resource list" where
  "got env =
     (if returned (env 0 Start_playwright)
      then Playwright #
        (if returned (env 1 Launch_chromium)
         then Browser # (if returned (env 2 New_context) then [Context] else [])
         else [])
      else [])"

text \<open>
  What the \<^verbatim>\<open>finally\<close> clause is to do with the resources \<open>rs\<close>, closed one after another
  from the call number \<open>i\<close> on: \<open>attempted\<close> are the close calls made, with what they did,
  \<open>closing\<close> the resources whose close call returned. A close call that raises is the last.
\<close>

fun closing :: "(nat \<Rightarrow> ui_call \<Rightarrow> ui_reply) \<Rightarrow> nat \<Rightarrow> resource list \<Rightarrow> resource list" where
  "closing env i [] = []"
| "closing env i (r # rs) = (if returned (env i (Close r)) then r # closing env (Suc i) rs else [])"

fun attempted :: "(nat \<Rightarrow> ui_call \<Rightarrow> ui_reply) \<Rightarrow> nat \<Rightarrow> resource list \<Rightarrow> (ui_call \<times> ui_reply) list" where
  "attempted env i [] = []"
| "attempted env i (r # rs) =
     (Close r, env i (Close r)) # (if returned (env i (Close r)) then attempted env (Suc i) rs else [])"

section \<open>Basic facts\<close>

lemmas prog_defs = ret_def raise_def lift_def then_do_def try_except_def try_finally_def

lemmas http_defs = requests_request_def requests_get_def requests_post_def requests_delete_def
  raise_for_status_def response_json_def py_assert_def assert_False_def


lemma py_eq_JStr: "py_eq v (JStr s) \<longleftrightarrow> v = JStr s"
  by (cases v) simp_all

lemma key_in_dict: "k \<in> fst ` set kvs \<longleftrightarrow> map_of kvs k \<noteq> None"
  by (simp add: map_of_eq_None_iff)

section \<open>Statements that keep a property\<close>

lemma then_do_Inl: "fst (m w) = Inl e \<Longrightarrow> then_do m g w = (Inl e, snd (m w))"
  by (cases "m w") (simp add: then_do_def)

lemma then_do_Inr: "fst (m w) = Inr a \<Longrightarrow> then_do m g w = g a (snd (m w))"
  by (cases "m w") (simp add: then_do_def)

named_theorems keeps_intros

lemma keepsD: "keeps P m \<Longrightarrow> P s \<Longrightarrow> P (snd (m s))"
  by (simp add: keeps_def)

lemma keeps_ret [keeps_intros]: "keeps P (ret a)"
  by (simp add: keeps_def ret_def)

lemma keeps_raise [keeps_intros]: "keeps P (raise e)"
  by (simp add: keeps_def raise_def)

lemma keeps_lift [keeps_intros]: "keeps P (lift r)"
  by (simp add: keeps_def lift_def)

lemma keeps_then_do [keeps_intros]:
  assumes "keeps P m" and "\<And>a. keeps P (g a)"
  shows "keeps P (then_do m g)"
  unfolding keeps_def
proof (intro allI impI)
  fix s assume "P s"
  with assms(1) have 1: "P (snd (m s))" by (rule keepsD)
  show "P (snd (then_do m g s))"
  proof (cases "fst (m s)")
    case (Inl e)
    then show ?thesis using 1 by (simp add: then_do_Inl)
  next
    case (Inr a)
    then show ?thesis using keepsD[OF assms(2) 1] by (simp add: then_do_Inr)
  qed
qed

lemma keeps_try_except [keeps_intros]:
  assumes "keeps P m" and "keeps P h"
  shows "keeps P (try_except m c h)"
  unfolding keeps_def
proof (intro allI impI)
  fix s assume "P s"
  with assms(1) have 1: "P (snd (m s))" by (rule keepsD)
  then show "P (snd (try_except m c h s))"
    using keepsD[OF assms(2) 1]
    by (cases "m s") (auto simp: try_except_def split: sum.splits)
qed

lemma keeps_try_finally [keeps_intros]:
  assumes "keeps P m" and "keeps P fin"
  shows "keeps P (try_finally m fin)"
  unfolding keeps_def
proof (intro allI impI)
  fix s assume "P s"
  with assms(1) have 1: "P (snd (m s))" by (rule keepsD)
  then show "P (snd (try_finally m fin s))"
    using keepsD[OF assms(2) 1]
    by (cases "m s"; cases "fin (snd (m s))") (auto simp: try_finally_def split: sum.splits)
qed

lemma keeps_if [keeps_intros]: "keeps P a \<Longrightarrow> keeps P b \<Longrightarrow> keeps P (if c then a else b)"
  by simp

lemma keeps_raise_for_status [keeps_intros]: "keeps P (raise_for_status r)"
  by (simp add: raise_for_status_def keeps_intros)

lemma keeps_response_json [keeps_intros]: "keeps P (response_json r)"
  by (cases "body r") (simp_all add: response_json_def keeps_intros)

text \<open>The observations that the statements other than a request leave alone.\<close>

lemma keeps_py_assert [keeps_intros]:
  "(\<And>w t. P w \<Longrightarrow> P (w\<lparr>trace := t\<rparr>)) \<Longrightarrow> keeps P (py_assert c)"
  by (simp add: keeps_def py_assert_def)

lemma keeps_assert_False [keeps_intros]:
  "(\<And>w t. P w \<Longrightarrow> P (w\<lparr>trace := t\<rparr>)) \<Longrightarrow> keeps P assert_False"
  by (simp add: keeps_def assert_False_def)

lemma keeps_uuid4 [keeps_intros]:
  "(\<And>w n. P w \<Longrightarrow> P (w\<lparr>drawn := n\<rparr>)) \<Longrightarrow> keeps P uuid4"
  by (simp add: keeps_def uuid4_def)

lemma keeps_read_var [keeps_intros]: "keeps P (read_var x)"
  by (simp add: keeps_def read_var_def split: option.splits)

lemma keeps_in_locals [keeps_intros]: "keeps P (in_locals x)"
  by (simp add: keeps_def in_locals_def)

lemma keeps_assign [keeps_intros]:
  "(\<And>w. P w \<Longrightarrow> P (w\<lparr>locals := (locals w)(x \<mapsto> v)\<rparr>)) \<Longrightarrow> keeps P (assign x v)"
  by (simp add: keeps_def assign_def)

lemma keeps_requests_request [keeps_intros]:
  "(\<And>w p. P w \<Longrightarrow> P (w\<lparr>pending := p, sent := sent w @ [rq]\<rparr>)) \<Longrightarrow> keeps P (requests_request rq)"
  unfolding keeps_def requests_request_def
proof (intro allI impI)
  fix s assume a: "\<And>w p. P w \<Longrightarrow> P (w\<lparr>pending := p, sent := sent w @ [rq]\<rparr>)" and "P s"
  from a[OF \<open>P s\<close>, of "pending s"] a[OF \<open>P s\<close>]
  show "P (snd (case pending s of [] \<Rightarrow> (Inl ConnectionError, s\<lparr>sent := sent s @ [rq]\<rparr>)
      | NoConnection # rs \<Rightarrow> (Inl ConnectionError, s\<lparr>pending := rs, sent := sent s @ [rq]\<rparr>)
      | TimedOut # rs \<Rightarrow> (Inl Timeout, s\<lparr>pending := rs, sent := sent s @ [rq]\<rparr>)
      | Reply r # rs \<Rightarrow> (Inr r, s\<lparr>pending := rs, sent := sent s @ [rq]\<rparr>)))"
    by (auto split: list.splits reply.splits)
qed

section \<open>The health check (TC010)\<close>









section \<open>The filtered listing (TC001)\<close>

lemma check_rfps_Cons:
  "fst (check_rfps (rfp # rest) w) =
     (if matches_filters rfp then fst (check_rfps rest (w\<lparr>trace := trace w @ replicate 5 Passed\<rparr>))
      else Inl AssertionError)"
proof (cases rfp)
  case (JObj kvs)
  show ?thesis unfolding JObj
    by (cases "map_of kvs ''status''"; cases "map_of kvs ''portalId''")
       (simp_all add: matches_filters_def prog_defs py_assert_def py_in_def py_subscript_def
          params_item_def params_TC001_def py_eq_JStr key_in_dict numeral_eq_Suc)
qed (simp_all add: matches_filters_def prog_defs py_assert_def)

lemma check_rfps_fst:
  "fst (check_rfps items w) = (if list_all matches_filters items then Inr () else Inl AssertionError)"
proof (induction items arbitrary: w)
  case Nil
  show ?case by (simp add: ret_def)
next
  case (Cons rfp rest)
  show ?case unfolding check_rfps_Cons by (simp add: Cons.IH)
qed

text \<open>The run as a function of the first reply.\<close>

lemma listing_run:
  "fst (test_get_all_rfps_with_pagination_and_filtering w) =
     (case pending w of
        Reply r # rest \<Rightarrow>
          (case body r of
             Json (JArr items) \<Rightarrow>
               if status_code r = 200 \<and> length items \<le> 20 \<and> list_all matches_filters items
               then Inr () else Inl AssertionError
           | _ \<Rightarrow> Inl AssertionError)
      | _ \<Rightarrow> Inl AssertionError)"
proof (cases "pending w")
  case Nil
  then show ?thesis
    by (simp add: test_get_all_rfps_with_pagination_and_filtering_def prog_defs http_defs)
next
  case (Cons a rest)
  show ?thesis
  proof (cases a)
    case (Reply r)
    show ?thesis
    proof (cases "body r")
      case NotJson
      with Cons Reply show ?thesis
        by (simp add: test_get_all_rfps_with_pagination_and_filtering_def prog_defs http_defs)
    next
      case (Json data)
      with Cons Reply show ?thesis
        by (cases data)
           (simp_all add: test_get_all_rfps_with_pagination_and_filtering_def then_do_def
             try_except_def ret_def raise_def http_defs check_rfps_fst split: prod.splits sum.splits)
    qed
  qed (simp_all add: Cons test_get_all_rfps_with_pagination_and_filtering_def prog_defs http_defs)
qed

section \<open>The filtered listing: requests and the claim\<close>

lemma keeps_check_rfps: "keeps (\<lambda>w. sent w = c) (check_rfps items)"
  by (induction items) (auto intro!: keeps_intros)

lemma fetch_sent:
  "sent (snd (try_except
          (then_do (requests_get u ps hs) (\<lambda>response. then_do (raise_for_status response) (\<lambda>_. ret response)))
          is_RequestException assert_False w)) =
   sent w @ [\<lparr>verb = GET, url = u, params = ps, json_payload = None, headers = hs, timeout = TIMEOUT\<rparr>]"
  by (simp add: prog_defs http_defs split: list.splits reply.splits)

lemma listing_request:
  "sent (snd (test_get_all_rfps_with_pagination_and_filtering w)) =
     sent w @ [\<lparr>verb = GET, url = [Lit BASE_URL, Lit ''/api/rfps''], params = params_TC001,
                json_payload = None, headers = [], timeout = TIMEOUT\<rparr>]"
proof -
  let ?fetch = "try_except
          (then_do (requests_get [Lit BASE_URL, Lit ''/api/rfps''] params_TC001 [])
             (\<lambda>response. then_do (raise_for_status response) (\<lambda>_. ret response)))
          is_RequestException assert_False"
  let ?c = "sent (snd (?fetch w))"
  have rest: "keeps (\<lambda>w. sent w = ?c) (\<lambda>s.
     (then_do (py_assert (status_code response = 200)) (\<lambda>_.
     then_do (try_except (response_json response) is_ValueError assert_False) (\<lambda>data.
     then_do (py_assert (is_list data)) (\<lambda>_.
     then_do (py_assert (len data \<le> 20)) (\<lambda>_.
     (case data of JArr items \<Rightarrow> check_rfps items | _ \<Rightarrow> raise TypeError)))))) s)" for response
    by (auto intro!: keeps_intros keeps_check_rfps split: json.splits)
  show ?thesis
  proof (cases "fst (?fetch w)")
    case (Inl e)
    then show ?thesis
      unfolding test_get_all_rfps_with_pagination_and_filtering_def
      by (simp add: then_do_Inl fetch_sent)
  next
    case (Inr r)
    then show ?thesis
      unfolding test_get_all_rfps_with_pagination_and_filtering_def
      using keepsD[OF rest[of r], of "snd (?fetch w)"]
      by (simp add: then_do_Inr fetch_sent)
  qed
qed

lemma list_all_matches:
  "list_all matches_filters items \<longleftrightarrow>
   (\<forall>item \<in> set items. \<exists>kvs. item = JObj kvs \<and> (\<forall>(k, v) \<in> set params_TC001. map_of kvs k = Some (JStr v)))"
  by (simp add: list_all_iff matches_filters_def params_TC001_def)

text \<open>
  C4. The listing test sends one GET of \<open>/api/rfps\<close> with the \<open>status\<close> and \<open>portalId\<close>
  filters and no \<open>page\<close> or \<open>limit\<close>. It passes exactly when the reply is a response with
  status 200 whose body is a JSON list of at most 20 items, every item an object whose
  \<open>status\<close> and \<open>portalId\<close> fields are the requested filter values. In every other case
  (more than 20 items, an item that violates a filter) it fails, with an \<^verbatim>\<open>AssertionError\<close>.
\<close>

theorem listing_passes_iff:
  "(outcome (test_get_all_rfps_with_pagination_and_filtering w) = None \<longleftrightarrow>
      (\<exists>r items rest.
         pending w = Reply r # rest \<and> status_code r = 200 \<and> body r = Json (JArr items) \<and>
         length items \<le> 20 \<and>
         (\<forall>item \<in> set items. \<exists>kvs. item = JObj kvs \<and>
            (\<forall>(k, v) \<in> set params_TC001. map_of kvs k = Some (JStr v))))) \<and>
   outcome (test_get_all_rfps_with_pagination_and_filtering w) \<in> {None, Some AssertionError} \<and>
   sent (snd (test_get_all_rfps_with_pagination_and_filtering w)) =
     sent w @ [\<lparr>verb = GET, url = [Lit BASE_URL, Lit ''/api/rfps''],
                params = [(''status'', ''active''), (''portalId'', ''portal-123'')],
                json_payload = None, headers = [], timeout = 30\<rparr>]"
proof -
  have "outcome (test_get_all_rfps_with_pagination_and_filtering w) = None \<longleftrightarrow>
      (\<exists>r items rest.
         pending w = Reply r # rest \<and> status_code r = 200 \<and> body r = Json (JArr items) \<and>
         length items \<le> 20 \<and> list_all matches_filters items)"
    unfolding outcome_def listing_run
    by (auto split: list.splits reply.splits payload.splits json.splits)
  moreover have "outcome (test_get_all_rfps_with_pagination_and_filtering w) \<in> {None, Some AssertionError}"
    unfolding outcome_def listing_run
    by (auto split: list.splits reply.splits payload.splits json.splits)
  moreover note listing_request[of w, unfolded params_TC001_def TIMEOUT_def]
  ultimately show ?thesis unfolding list_all_matches by blast
qed


lemma raised_AssertionError:
  "x \<noteq> None \<Longrightarrow> x \<in> {None, Some AssertionError} \<Longrightarrow> x = Some AssertionError"
  by auto

text \<open>One matching item passes; twenty-one matching items fail; one item of another status fails.\<close>

theorem listing_passes_iff_witness:
  "outcome (test_get_all_rfps_with_pagination_and_filtering
      (start [Reply \<lparr>status_code = 200, body = Json (JArr
          [JObj [(''status'', JStr ''active''), (''portalId'', JStr ''portal-123'')]])\<rparr>] (\<lambda>n. []))) = None \<and>
   outcome (test_get_all_rfps_with_pagination_and_filtering
      (start [Reply \<lparr>status_code = 200, body = Json (JArr (replicate 21
          (JObj [(''status'', JStr ''active''), (''portalId'', JStr ''portal-123'')])))\<rparr>] (\<lambda>n. []))) =
     Some AssertionError \<and>
   outcome (test_get_all_rfps_with_pagination_and_filtering
      (start [Reply \<lparr>status_code = 200, body = Json (JArr
          [JObj [(''status'', JStr ''closed''), (''portalId'', JStr ''portal-123'')]])\<rparr>] (\<lambda>n. []))) =
     Some AssertionError"
proof -
  let ?good = "JObj [(''status'', JStr ''active''), (''portalId'', JStr ''portal-123'')]"
  let ?bad = "JObj [(''status'', JStr ''closed''), (''portalId'', JStr ''portal-123'')]"
  let ?w1 = "start [Reply \<lparr>status_code = 200, body = Json (JArr [?good])\<rparr>] (\<lambda>n. [])"
  let ?w2 = "start [Reply \<lparr>status_code = 200, body = Json (JArr (replicate 21 ?good))\<rparr>] (\<lambda>n. [])"
  let ?w3 = "start [Reply \<lparr>status_code = 200, body = Json (JArr [?bad])\<rparr>] (\<lambda>n. [])"
  have "\<exists>r items rest.
         pending ?w1 = Reply r # rest \<and> status_code r = 200 \<and> body r = Json (JArr items) \<and>
         length items \<le> 20 \<and>
         (\<forall>item \<in> set items. \<exists>kvs. item = JObj kvs \<and>
            (\<forall>(k, v) \<in> set params_TC001. map_of kvs k = Some (JStr v)))"
    by (intro exI[of _ "\<lparr>status_code = 200, body = Json (JArr [?good])\<rparr>"] exI[of _ "[?good]"] exI[of _ "[]"])
       (simp add: start_def params_TC001_def)
  then have 1: "outcome (test_get_all_rfps_with_pagination_and_filtering ?w1) = None"
    by (rule listing_passes_iff[of ?w1, THEN conjunct1, THEN iffD2])
  have "\<not> (\<exists>r items rest.
         pending ?w2 = Reply r # rest \<and> status_code r = 200 \<and> body r = Json (JArr items) \<and>
         length items \<le> 20 \<and>
         (\<forall>item \<in> set items. \<exists>kvs. item = JObj kvs \<and>
            (\<forall>(k, v) \<in> set params_TC001. map_of kvs k = Some (JStr v))))"
  proof clarify
    fix r items rest
    assume p: "pending ?w2 = Reply r # rest" and b: "body r = Json (JArr items)"
      and l: "length items \<le> 20"
    from p have "r = \<lparr>status_code = 200, body = Json (JArr (replicate 21 ?good))\<rparr>"
      by (simp add: start_def)
    with b have "items = replicate 21 ?good" by simp
    with l show False by simp
  qed
  then have "outcome (test_get_all_rfps_with_pagination_and_filtering ?w2) \<noteq> None"
    unfolding listing_passes_iff[of ?w2, THEN conjunct1] .
  moreover have "outcome (test_get_all_rfps_with_pagination_and_filtering ?w2) \<in> {None, Some AssertionError}"
    by (rule listing_passes_iff[of ?w2, THEN conjunct2, THEN conjunct1])
  ultimately have 2: "outcome (test_get_all_rfps_with_pagination_and_filtering ?w2) = Some AssertionError"
    by (rule raised_AssertionError)
  have "\<not> (\<exists>r items rest.
         pending ?w3 = Reply r # rest \<and> status_code r = 200 \<and> body r = Json (JArr items) \<and>
         length items \<le> 20 \<and>
         (\<forall>item \<in> set items. \<exists>kvs. item = JObj kvs \<and>
            (\<forall>(k, v) \<in> set params_TC001. map_of kvs k = Some (JStr v))))"
  proof clarify
    fix r items rest
    assume p: "pending ?w3 = Reply r # rest" and b: "body r = Json (JArr items)"
      and f: "\<forall>item \<in> set items. \<exists>kvs. item = JObj kvs \<and>
            (\<forall>(k, v) \<in> set params_TC001. map_of kvs k = Some (JStr v))"
    from p have "r = \<lparr>status_code = 200, body = Json (JArr [?bad])\<rparr>"
      by (simp add: start_def)
    with b have "items = [?bad]" by simp
    with f show False by (simp add: params_TC001_def)
  qed
  then have "outcome (test_get_all_rfps_with_pagination_and_filtering ?w3) \<noteq> None"
    unfolding listing_passes_iff[of ?w3, THEN conjunct1] .
  moreover have "outcome (test_get_all_rfps_with_pagination_and_filtering ?w3) \<in> {None, Some AssertionError}"
    by (rule listing_passes_iff[of ?w3, THEN conjunct2, THEN conjunct1])
  ultimately have 3: "outcome (test_get_all_rfps_with_pagination_and_filtering ?w3) = Some AssertionError"
    by (rule raised_AssertionError)
  from 1 2 3 show ?thesis by (intro conjI)
qed

section \<open>Create, read back, ask for a missing one (TC003)\<close>


lemma create_rfp_sent:
  "sent (snd (create_rfp w)) = sent w @ [create_request (uuids w (drawn w)) (uuids w (Suc (drawn w)))]"
  by (simp add: create_rfp_def create_request_def uuid4_def prog_defs http_defs
      split: list.splits reply.splits payload.splits sum.splits)

lemma create_rfp_pending: "pending (snd (create_rfp w)) = tl (pending w)"
  by (simp add: create_rfp_def uuid4_def prog_defs http_defs
      split: list.splits reply.splits payload.splits sum.splits)

lemma create_rfp_locals: "locals (snd (create_rfp w)) = locals w"
  by (simp add: create_rfp_def uuid4_def prog_defs http_defs
      split: list.splits reply.splits payload.splits sum.splits)

lemma create_rfp_Inr:
  "fst (create_rfp w) = Inr v \<longleftrightarrow>
   (\<exists>r rest o1. pending w = Reply r # rest \<and> status_code r = 201 \<and> body r = Json (JObj o1) \<and>
      map_of o1 ''id'' = Some v)"
proof (cases "pending w")
  case Nil
  then show ?thesis by (simp add: create_rfp_def uuid4_def prog_defs http_defs)
next
  case (Cons a rest)
  show ?thesis
  proof (cases a)
    case (Reply r)
    show ?thesis
    proof (cases "body r")
      case NotJson
      with Cons Reply show ?thesis by (simp add: create_rfp_def uuid4_def prog_defs http_defs)
    next
      case (Json created)
      with Cons Reply show ?thesis
        by (cases created)
           (auto simp: create_rfp_def uuid4_def prog_defs http_defs py_in_def py_subscript_def
              key_in_dict split: option.splits)
    qed
  qed (simp_all add: Cons create_rfp_def uuid4_def prog_defs http_defs)
qed

lemma then_do_fst_Inr:
  "fst (then_do m g w) = Inr b \<longleftrightarrow> (\<exists>a. fst (m w) = Inr a \<and> fst (g a (snd (m w))) = Inr b)"
  by (cases "m w"; cases "fst (m w)") (auto simp: then_do_def)

lemma get_created_rfp_sent:
  "sent (snd (get_created_rfp v w)) = sent w @ [get_request (Str v)]"
  by (simp add: get_created_rfp_def get_request_def prog_defs http_defs
      split: list.splits reply.splits payload.splits sum.splits)

lemma get_created_rfp_pending: "pending (snd (get_created_rfp v w)) = tl (pending w)"
  by (simp add: get_created_rfp_def prog_defs http_defs
      split: list.splits reply.splits payload.splits sum.splits)

lemma get_created_rfp_Inr:
  "fst (get_created_rfp v w) = Inr () \<longleftrightarrow>
   (\<exists>r rest o2. pending w = Reply r # rest \<and> status_code r = 200 \<and> body r = Json (JObj o2) \<and>
      py_eq (case map_of o2 ''id'' of None \<Rightarrow> JNull | Some x \<Rightarrow> x) v)"
proof (cases "pending w")
  case Nil
  then show ?thesis by (simp add: get_created_rfp_def prog_defs http_defs)
next
  case (Cons a rest)
  show ?thesis
  proof (cases a)
    case (Reply r)
    show ?thesis
    proof (cases "body r")
      case NotJson
      with Cons Reply show ?thesis by (simp add: get_created_rfp_def prog_defs http_defs)
    next
      case (Json details)
      with Cons Reply show ?thesis
        by (cases details) (auto simp: get_created_rfp_def prog_defs http_defs py_get_def)
    qed
  qed (simp_all add: Cons get_created_rfp_def prog_defs http_defs)
qed

lemma get_non_existent_rfp_sent:
  "sent (snd (get_non_existent_rfp w)) = sent w @ [get_request (Lit (''nonexistent-'' @ uuids w (drawn w)))]"
  by (simp add: get_non_existent_rfp_def get_request_def uuid4_def prog_defs http_defs
      split: list.splits reply.splits)

lemma get_non_existent_rfp_Inr:
  "fst (get_non_existent_rfp w) = Inr () \<longleftrightarrow>
   (\<exists>r rest. pending w = Reply r # rest \<and> status_code r = 404)"
  by (auto simp: get_non_existent_rfp_def uuid4_def prog_defs http_defs
      split: list.splits reply.splits)

text \<open>The \<^verbatim>\<open>finally\<close> clause of TC003 does nothing once \<open>rfp_id\<close> is bound.\<close>

lemma specific_finally_noop:
  "locals s ''rfp_id'' \<noteq> None \<Longrightarrow>
   then_do (read_var ''rfp_id'') (\<lambda>rfp_id. if truthy rfp_id then delete_rfp rfp_id else ret ()) s = (Inr (), s)"
  by (auto simp: read_var_def delete_rfp_def prog_defs)

lemma try_finally_noop: "fin (snd (m w)) = (Inr (), snd (m w)) \<Longrightarrow> try_finally m fin w = m w"
  by (cases "m w") (simp add: try_finally_def)

lemma specific_try_keeps_bound: "keeps (\<lambda>w. locals w ''rfp_id'' \<noteq> None) specific_try"
  unfolding specific_try_def create_rfp_def get_created_rfp_def get_non_existent_rfp_def
    requests_post_def requests_get_def
  by (intro keeps_intros) simp_all

lemma test_specific_unfold:
  "test_get_specific_rfp_by_id w = specific_try (w\<lparr>locals := (locals w)(''rfp_id'' \<mapsto> JNull)\<rparr>)"
proof -
  let ?w1 = "w\<lparr>locals := (locals w)(''rfp_id'' \<mapsto> JNull)\<rparr>"
  have "locals (snd (specific_try ?w1)) ''rfp_id'' \<noteq> None"
    by (rule keepsD[OF specific_try_keeps_bound]) simp
  then have "try_finally specific_try
      (then_do (read_var ''rfp_id'') (\<lambda>rfp_id. if truthy rfp_id then delete_rfp rfp_id else ret ())) ?w1 =
      specific_try ?w1"
    by (intro try_finally_noop specific_finally_noop)
  then show ?thesis
    by (simp add: test_get_specific_rfp_by_id_def then_do_def assign_def)
qed

lemma assign_run: "assign x v s = (Inr (), s\<lparr>locals := (locals s)(x \<mapsto> v)\<rparr>)"
  by (simp add: assign_def)

lemma specific_try_passes:
  "fst (specific_try w) = Inr () \<longleftrightarrow>
   (\<exists>r1 r2 r3 rest o1 v o2.
      pending w = Reply r1 # Reply r2 # Reply r3 # rest \<and>
      status_code r1 = 201 \<and> body r1 = Json (JObj o1) \<and> map_of o1 ''id'' = Some v \<and>
      status_code r2 = 200 \<and> body r2 = Json (JObj o2) \<and>
      py_eq (case map_of o2 ''id'' of None \<Rightarrow> JNull | Some x \<Rightarrow> x) v \<and>
      status_code r3 = 404)"
  (is "?lhs \<longleftrightarrow> ?rhs")
proof
  assume ?lhs
  then obtain v where c: "fst (create_rfp w) = Inr v"
    and rest: "fst (then_do (assign ''rfp_id'' v) (\<lambda>_. then_do (get_created_rfp v) (\<lambda>_. get_non_existent_rfp))
                  (snd (create_rfp w))) = Inr ()"
    unfolding specific_try_def then_do_fst_Inr[of create_rfp] by blast
  let ?s2 = "(snd (create_rfp w))\<lparr>locals := (locals (snd (create_rfp w)))(''rfp_id'' \<mapsto> v)\<rparr>"
  from rest have g: "fst (get_created_rfp v ?s2) = Inr ()"
    and n: "fst (get_non_existent_rfp (snd (get_created_rfp v ?s2))) = Inr ()"
    by (auto simp: then_do_fst_Inr assign_run)
  from c obtain r1 rest1 o1 where 1: "pending w = Reply r1 # rest1" "status_code r1 = 201"
      "body r1 = Json (JObj o1)" "map_of o1 ''id'' = Some v"
    unfolding create_rfp_Inr by blast
  have p2: "pending ?s2 = rest1" using 1(1) by (simp add: create_rfp_pending)
  from g obtain r2 rest2 o2 where 2: "pending ?s2 = Reply r2 # rest2" "status_code r2 = 200"
      "body r2 = Json (JObj o2)" "py_eq (case map_of o2 ''id'' of None \<Rightarrow> JNull | Some x \<Rightarrow> x) v"
    unfolding get_created_rfp_Inr by blast
  have p3: "pending (snd (get_created_rfp v ?s2)) = rest2"
    using 2(1) by (simp add: get_created_rfp_pending)
  from n obtain r3 rest3 where 3: "pending (snd (get_created_rfp v ?s2)) = Reply r3 # rest3"
      "status_code r3 = 404"
    unfolding get_non_existent_rfp_Inr by blast
  from 1 2 3 p2 p3 show ?rhs by auto
next
  assume ?rhs
  then obtain r1 r2 r3 rest o1 v o2 where
    p: "pending w = Reply r1 # Reply r2 # Reply r3 # rest" and
    1: "status_code r1 = 201" "body r1 = Json (JObj o1)" "map_of o1 ''id'' = Some v" and
    2: "status_code r2 = 200" "body r2 = Json (JObj o2)"
       "py_eq (case map_of o2 ''id'' of None \<Rightarrow> JNull | Some x \<Rightarrow> x) v" and
    3: "status_code r3 = 404"
    by blast
  let ?s2 = "(snd (create_rfp w))\<lparr>locals := (locals (snd (create_rfp w)))(''rfp_id'' \<mapsto> v)\<rparr>"
  have c: "fst (create_rfp w) = Inr v" unfolding create_rfp_Inr using p 1 by blast
  have p2: "pending ?s2 = Reply r2 # Reply r3 # rest" using p by (simp add: create_rfp_pending)
  have g: "fst (get_created_rfp v ?s2) = Inr ()" unfolding get_created_rfp_Inr using p2 2 by blast
  have p3: "pending (snd (get_created_rfp v ?s2)) = Reply r3 # rest"
    using p2 by (simp add: get_created_rfp_pending)
  have n: "fst (get_non_existent_rfp (snd (get_created_rfp v ?s2))) = Inr ()"
    unfolding get_non_existent_rfp_Inr using p3 3 by blast
  show ?lhs
    unfolding specific_try_def
    by (simp add: then_do_Inr[of create_rfp, OF c] assign_run then_do_Inr[of "assign ''rfp_id'' v"] then_do_Inr[of "get_created_rfp v", OF g] n)
qed

lemma specific_try_sent_created:
  assumes "fst (create_rfp w) = Inr v"
  shows "\<exists>more. sent (snd (specific_try w)) =
           sent w @ create_request (uuids w (drawn w)) (uuids w (Suc (drawn w))) # get_request (Str v) # more"
proof -
  let ?s2 = "(snd (create_rfp w))\<lparr>locals := (locals (snd (create_rfp w)))(''rfp_id'' \<mapsto> v)\<rparr>"
  have u: "specific_try w = then_do (get_created_rfp v) (\<lambda>_. get_non_existent_rfp) ?s2"
    unfolding specific_try_def
    by (simp add: then_do_Inr[of create_rfp, OF assms] assign_run then_do_Inr[of "assign ''rfp_id'' v"])
  have s2: "sent ?s2 = sent w @ [create_request (uuids w (drawn w)) (uuids w (Suc (drawn w)))]"
    by (simp add: create_rfp_sent)
  show ?thesis
  proof (cases "fst (get_created_rfp v ?s2)")
    case (Inl e)
    then show ?thesis unfolding u by (simp add: then_do_Inl get_created_rfp_sent s2)
  next
    case (Inr a)
    then show ?thesis unfolding u
      by (simp add: then_do_Inr get_non_existent_rfp_sent get_created_rfp_sent s2)
  qed
qed

lemma specific_try_not_created:
  assumes "\<forall>v. fst (create_rfp w) \<noteq> Inr v"
  shows "fst (specific_try w) \<noteq> Inr () \<and>
         sent (snd (specific_try w)) =
           sent w @ [create_request (uuids w (drawn w)) (uuids w (Suc (drawn w)))]"
proof -
  from assms obtain e where e: "fst (create_rfp w) = Inl e"
    by (cases "fst (create_rfp w)") auto
  show ?thesis unfolding specific_try_def by (simp add: then_do_Inl[of create_rfp, OF e] create_rfp_sent)
qed


lemma start_simps:
  "pending (start rs us) = rs" "sent (start rs us) = []" "trace (start rs us) = []"
  "uuids (start rs us) = us" "drawn (start rs us) = 0" "locals (start rs us) = Map.empty"
  by (simp_all add: start_def)

lemma create_rfp_uuid: "drawn (snd (create_rfp w)) = drawn w + 2 \<and> uuids (snd (create_rfp w)) = uuids w"
  by (simp add: create_rfp_def uuid4_def prog_defs http_defs
      split: list.splits reply.splits payload.splits sum.splits)

lemma get_created_rfp_uuid:
  "drawn (snd (get_created_rfp v w)) = drawn w \<and> uuids (snd (get_created_rfp v w)) = uuids w"
  by (simp add: get_created_rfp_def prog_defs http_defs
      split: list.splits reply.splits payload.splits sum.splits)

lemma specific_try_sent_read_back:
  assumes c: "fst (create_rfp w) = Inr v"
    and g: "fst (get_created_rfp v
              ((snd (create_rfp w))\<lparr>locals := (locals (snd (create_rfp w)))(''rfp_id'' \<mapsto> v)\<rparr>)) = Inr ()"
  shows "sent (snd (specific_try w)) =
           sent w @ [create_request (uuids w (drawn w)) (uuids w (Suc (drawn w))),
                     get_request (Str v),
                     get_request (Lit (''nonexistent-'' @ uuids w (drawn w + 2)))]"
proof -
  let ?s2 = "(snd (create_rfp w))\<lparr>locals := (locals (snd (create_rfp w)))(''rfp_id'' \<mapsto> v)\<rparr>"
  have u: "specific_try w = get_non_existent_rfp (snd (get_created_rfp v ?s2))"
    unfolding specific_try_def
    by (simp add: then_do_Inr[of create_rfp, OF c] assign_run then_do_Inr[of "assign ''rfp_id'' v"]
        then_do_Inr[of "get_created_rfp v", OF g])
  have s2: "sent ?s2 = sent w @ [create_request (uuids w (drawn w)) (uuids w (Suc (drawn w)))]"
    by (simp add: create_rfp_sent)
  have d: "drawn (snd (get_created_rfp v ?s2)) = drawn w + 2" "uuids (snd (get_created_rfp v ?s2)) = uuids w"
    using get_created_rfp_uuid[of v ?s2] create_rfp_uuid[of w] by simp_all
  show ?thesis unfolding u
    by (simp add: get_non_existent_rfp_sent get_created_rfp_sent s2 d)
qed

lemma py_eq_JInt:
  "py_eq g (JInt i) \<longleftrightarrow>
     g = JInt i \<or> g = JFloat (of_int i) \<or> g = JBool True \<and> i = 1 \<or> g = JBool False \<and> i = 0"
  by (cases g) auto

lemma specific_sent_read_back:
  assumes "status_code r1 = 201 \<and> body r1 = Json (JObj o1) \<and> map_of o1 ''id'' = Some v \<and>
      status_code r2 = 200 \<and> body r2 = Json (JObj o2) \<and>
      py_eq (case map_of o2 ''id'' of None \<Rightarrow> JNull | Some x \<Rightarrow> x) v"
  shows "map (\<lambda>q. (verb q, url q))
           (sent (snd (test_get_specific_rfp_by_id (start (Reply r1 # Reply r2 # rs3) us)))) =
         [(POST, [Lit BASE_URL, Lit ''/api/rfps'']),
          (GET, [Lit BASE_URL, Lit ''/api/rfps/'', Str v]),
          (GET, [Lit BASE_URL, Lit ''/api/rfps/'', Lit (''nonexistent-'' @ us 2)])]"
proof -
  let ?w1 = "(start (Reply r1 # Reply r2 # rs3) us)\<lparr>locals :=
      (locals (start (Reply r1 # Reply r2 # rs3) us))(''rfp_id'' \<mapsto> JNull)\<rparr>"
  let ?s2 = "(snd (create_rfp ?w1))\<lparr>locals := (locals (snd (create_rfp ?w1)))(''rfp_id'' \<mapsto> v)\<rparr>"
  from assms have c: "fst (create_rfp ?w1) = Inr v"
    unfolding create_rfp_Inr by (auto simp: start_simps)
  have p2: "pending ?s2 = Reply r2 # rs3" by (simp add: create_rfp_pending start_simps)
  have g: "fst (get_created_rfp v ?s2) = Inr ()"
    unfolding get_created_rfp_Inr using p2 assms by blast
  have two: "Suc (Suc 0) = 2" by simp
  from specific_try_sent_read_back[OF c g] show ?thesis
    by (simp add: test_specific_unfold start_simps create_request_def get_request_def two)
qed

text \<open>
  C3, as amended. In the create-then-get test, the run passes exactly when the POST of
  \<open>/api/rfps\<close> is answered 201 with a JSON object that has an \<open>id\<close>, the GET that follows is
  answered 200 with a JSON object whose \<open>id\<close> is equal (Python's \<^verbatim>\<open>==\<close>) to the captured one,
  and the GET of the non-existent id is answered 404. Equal to a captured string is that
  string and nothing else; equal to a captured integer is that integer, the float of the
  same value, and \<^verbatim>\<open>True\<close> for 1, \<^verbatim>\<open>False\<close> for 0. The id captured from the POST is the one
  the second request carries in its URL. When the POST is answered with another status
  than 201, the run fails and no GET is sent: the POST is the only request. Once the
  read-back has passed, the requests of the run are three: the POST, the GET under the
  captured id, and a GET under \<open>nonexistent-\<close> followed by the third uuid drawn, which
  does not use the captured id.
\<close>

theorem create_then_get:
  "(outcome (test_get_specific_rfp_by_id (start rs us)) = None \<longleftrightarrow>
      (\<exists>r1 r2 r3 rest o1 v o2.
         rs = Reply r1 # Reply r2 # Reply r3 # rest \<and>
         status_code r1 = 201 \<and> body r1 = Json (JObj o1) \<and> map_of o1 ''id'' = Some v \<and>
         status_code r2 = 200 \<and> body r2 = Json (JObj o2) \<and>
         py_eq (case map_of o2 ''id'' of None \<Rightarrow> JNull | Some x \<Rightarrow> x) v \<and>
         status_code r3 = 404)) \<and>
   (\<forall>g s. py_eq g (JStr s) \<longleftrightarrow> g = JStr s) \<and>
   (\<forall>g i. py_eq g (JInt i) \<longleftrightarrow>
      g = JInt i \<or> g = JFloat (of_int i) \<or> g = JBool True \<and> i = 1 \<or> g = JBool False \<and> i = 0) \<and>
   (\<forall>r1 rest o1 v.
      rs = Reply r1 # rest \<and> status_code r1 = 201 \<and> body r1 = Json (JObj o1) \<and>
      map_of o1 ''id'' = Some v \<longrightarrow>
      map (\<lambda>q. (verb q, url q)) (take 2 (sent (snd (test_get_specific_rfp_by_id (start rs us))))) =
        [(POST, [Lit BASE_URL, Lit ''/api/rfps'']), (GET, [Lit BASE_URL, Lit ''/api/rfps/'', Str v])]) \<and>
   (\<forall>r1 rest.
      rs = Reply r1 # rest \<and> status_code r1 \<noteq> 201 \<longrightarrow>
      outcome (test_get_specific_rfp_by_id (start rs us)) \<noteq> None \<and>
      map verb (sent (snd (test_get_specific_rfp_by_id (start rs us)))) = [POST]) \<and>
   (\<forall>r1 r2 rest o1 v o2.
      rs = Reply r1 # Reply r2 # rest \<and>
      status_code r1 = 201 \<and> body r1 = Json (JObj o1) \<and> map_of o1 ''id'' = Some v \<and>
      status_code r2 = 200 \<and> body r2 = Json (JObj o2) \<and>
      py_eq (case map_of o2 ''id'' of None \<Rightarrow> JNull | Some x \<Rightarrow> x) v \<longrightarrow>
      map (\<lambda>q. (verb q, url q)) (sent (snd (test_get_specific_rfp_by_id (start rs us)))) =
        [(POST, [Lit BASE_URL, Lit ''/api/rfps'']),
         (GET, [Lit BASE_URL, Lit ''/api/rfps/'', Str v]),
         (GET, [Lit BASE_URL, Lit ''/api/rfps/'', Lit (''nonexistent-'' @ us 2)])])"
proof -
  let ?w1 = "(start rs us)\<lparr>locals := (locals (start rs us))(''rfp_id'' \<mapsto> JNull)\<rparr>"
  have "outcome (test_get_specific_rfp_by_id (start rs us)) = None \<longleftrightarrow> fst (specific_try ?w1) = Inr ()"
    by (simp add: outcome_def test_specific_unfold split: sum.splits)
  then have A: "outcome (test_get_specific_rfp_by_id (start rs us)) = None \<longleftrightarrow>
      (\<exists>r1 r2 r3 rest o1 v o2.
         rs = Reply r1 # Reply r2 # Reply r3 # rest \<and>
         status_code r1 = 201 \<and> body r1 = Json (JObj o1) \<and> map_of o1 ''id'' = Some v \<and>
         status_code r2 = 200 \<and> body r2 = Json (JObj o2) \<and>
         py_eq (case map_of o2 ''id'' of None \<Rightarrow> JNull | Some x \<Rightarrow> x) v \<and>
         status_code r3 = 404)"
    unfolding specific_try_passes by (simp add: start_simps)
  have B: "map (\<lambda>q. (verb q, url q)) (take 2 (sent (snd (test_get_specific_rfp_by_id (start rs us))))) =
        [(POST, [Lit BASE_URL, Lit ''/api/rfps'']), (GET, [Lit BASE_URL, Lit ''/api/rfps/'', Str v])]"
    if a: "rs = Reply r1 # rest \<and> status_code r1 = 201 \<and> body r1 = Json (JObj o1) \<and>
      map_of o1 ''id'' = Some v" for r1 rest o1 v
  proof -
    from a have "fst (create_rfp ?w1) = Inr v"
      unfolding create_rfp_Inr by (auto simp: start_simps)
    from specific_try_sent_created[OF this] show ?thesis
      by (auto simp: test_specific_unfold start_simps create_request_def get_request_def)
  qed
  have C: "outcome (test_get_specific_rfp_by_id (start rs us)) \<noteq> None \<and>
      map verb (sent (snd (test_get_specific_rfp_by_id (start rs us)))) = [POST]"
    if a: "rs = Reply r1 # rest \<and> status_code r1 \<noteq> 201" for r1 rest
  proof -
    from a have "\<forall>v. fst (create_rfp ?w1) \<noteq> Inr v"
      unfolding create_rfp_Inr by (auto simp: start_simps)
    from specific_try_not_created[OF this] show ?thesis
      by (auto simp: test_specific_unfold start_simps create_request_def outcome_def split: sum.splits)
  qed
  have D: "map (\<lambda>q. (verb q, url q)) (sent (snd (test_get_specific_rfp_by_id (start rs us)))) =
        [(POST, [Lit BASE_URL, Lit ''/api/rfps'']),
         (GET, [Lit BASE_URL, Lit ''/api/rfps/'', Str v]),
         (GET, [Lit BASE_URL, Lit ''/api/rfps/'', Lit (''nonexistent-'' @ us 2)])]"
    if a: "rs = Reply r1 # Reply r2 # rest \<and>
      status_code r1 = 201 \<and> body r1 = Json (JObj o1) \<and> map_of o1 ''id'' = Some v \<and>
      status_code r2 = 200 \<and> body r2 = Json (JObj o2) \<and>
      py_eq (case map_of o2 ''id'' of None \<Rightarrow> JNull | Some x \<Rightarrow> x) v" for r1 r2 rest o1 v o2
  proof -
    from a have rs: "rs = Reply r1 # Reply r2 # rest" and
      h: "status_code r1 = 201 \<and> body r1 = Json (JObj o1) \<and> map_of o1 ''id'' = Some v \<and>
      status_code r2 = 200 \<and> body r2 = Json (JObj o2) \<and>
      py_eq (case map_of o2 ''id'' of None \<Rightarrow> JNull | Some x \<Rightarrow> x) v" by simp_all
    show ?thesis unfolding rs by (rule specific_sent_read_back[OF h])
  qed
  show ?thesis
  proof (intro conjI allI impI)
    show "outcome (test_get_specific_rfp_by_id (start rs us)) = None \<longleftrightarrow>
      (\<exists>r1 r2 r3 rest o1 v o2.
         rs = Reply r1 # Reply r2 # Reply r3 # rest \<and>
         status_code r1 = 201 \<and> body r1 = Json (JObj o1) \<and> map_of o1 ''id'' = Some v \<and>
         status_code r2 = 200 \<and> body r2 = Json (JObj o2) \<and>
         py_eq (case map_of o2 ''id'' of None \<Rightarrow> JNull | Some x \<Rightarrow> x) v \<and>
         status_code r3 = 404)" by (rule A)
  next
    fix g s show "py_eq g (JStr s) \<longleftrightarrow> g = JStr s" by (rule py_eq_JStr)
  next
    fix g i show "py_eq g (JInt i) \<longleftrightarrow>
      g = JInt i \<or> g = JFloat (of_int i) \<or> g = JBool True \<and> i = 1 \<or> g = JBool False \<and> i = 0"
      by (rule py_eq_JInt)
  next
    fix r1 :: response and rest :: "reply list" and o1 :: "(string \<times> json) list" and v :: json
    assume "rs = Reply r1 # rest \<and> status_code r1 = 201 \<and> body r1 = Json (JObj o1) \<and>
      map_of o1 ''id'' = Some v"
    then show "map (\<lambda>q. (verb q, url q)) (take 2 (sent (snd (test_get_specific_rfp_by_id (start rs us))))) =
        [(POST, [Lit BASE_URL, Lit ''/api/rfps'']), (GET, [Lit BASE_URL, Lit ''/api/rfps/'', Str v])]"
      by (rule B)
  next
    fix r1 :: response and rest :: "reply list"
    assume a: "rs = Reply r1 # rest \<and> status_code r1 \<noteq> 201"
    from C[OF a] show "outcome (test_get_specific_rfp_by_id (start rs us)) \<noteq> None" by simp
    from C[OF a] show "map verb (sent (snd (test_get_specific_rfp_by_id (start rs us)))) = [POST]" by simp
  next
    fix r1 r2 :: response and rest :: "reply list" and o1 o2 :: "(string \<times> json) list" and v :: json
    assume "rs = Reply r1 # Reply r2 # rest \<and>
      status_code r1 = 201 \<and> body r1 = Json (JObj o1) \<and> map_of o1 ''id'' = Some v \<and>
      status_code r2 = 200 \<and> body r2 = Json (JObj o2) \<and>
      py_eq (case map_of o2 ''id'' of None \<Rightarrow> JNull | Some x \<Rightarrow> x) v"
    then show "map (\<lambda>q. (verb q, url q)) (sent (snd (test_get_specific_rfp_by_id (start rs us)))) =
        [(POST, [Lit BASE_URL, Lit ''/api/rfps'']),
         (GET, [Lit BASE_URL, Lit ''/api/rfps/'', Str v]),
         (GET, [Lit BASE_URL, Lit ''/api/rfps/'', Lit (''nonexistent-'' @ us 2)])]"
      by (rule D)
  qed
qed

text \<open>
  C3 as stated fails in its closing clause (the value set by an earlier step is used by
  every subsequent step): in a passing run that captures the id \<open>rfp-1\<close>, the request of
  the third step is built from a fresh uuid, without the captured id.
\<close>

theorem captured_id_unused_by_third_request_counterexample:
  "outcome (test_get_specific_rfp_by_id
      (start [Reply \<lparr>status_code = 201, body = Json (JObj [(''id'', JStr ''rfp-1'')])\<rparr>,
              Reply \<lparr>status_code = 200, body = Json (JObj [(''id'', JStr ''rfp-1'')])\<rparr>,
              Reply \<lparr>status_code = 404, body = NotJson\<rparr>] (\<lambda>n. ''u''))) = None \<and>
   map url (sent (snd (test_get_specific_rfp_by_id
      (start [Reply \<lparr>status_code = 201, body = Json (JObj [(''id'', JStr ''rfp-1'')])\<rparr>,
              Reply \<lparr>status_code = 200, body = Json (JObj [(''id'', JStr ''rfp-1'')])\<rparr>,
              Reply \<lparr>status_code = 404, body = NotJson\<rparr>] (\<lambda>n. ''u''))))) =
     [[Lit ''http://localhost:5173'', Lit ''/api/rfps''],
      [Lit ''http://localhost:5173'', Lit ''/api/rfps/'', Str (JStr ''rfp-1'')],
      [Lit ''http://localhost:5173'', Lit ''/api/rfps/'', Lit ''nonexistent-u'']] \<and>
   \<not> (\<forall>q \<in> set (tl (sent (snd (test_get_specific_rfp_by_id
      (start [Reply \<lparr>status_code = 201, body = Json (JObj [(''id'', JStr ''rfp-1'')])\<rparr>,
              Reply \<lparr>status_code = 200, body = Json (JObj [(''id'', JStr ''rfp-1'')])\<rparr>,
              Reply \<lparr>status_code = 404, body = NotJson\<rparr>] (\<lambda>n. ''u'')))))).
        Str (JStr ''rfp-1'') \<in> set (url q))"
proof -
  let ?r1 = "\<lparr>status_code = 201, body = Json (JObj [(''id'', JStr ''rfp-1'')])\<rparr>"
  let ?r2 = "\<lparr>status_code = 200, body = Json (JObj [(''id'', JStr ''rfp-1'')])\<rparr>"
  let ?r3 = "\<lparr>status_code = 404, body = NotJson\<rparr>"
  let ?us = "\<lambda>n::nat. ''u''"
  let ?run = "test_get_specific_rfp_by_id (start [Reply ?r1, Reply ?r2, Reply ?r3] ?us)"
  let ?w1 = "(start [Reply ?r1, Reply ?r2, Reply ?r3] ?us)\<lparr>locals :=
      (locals (start [Reply ?r1, Reply ?r2, Reply ?r3] ?us))(''rfp_id'' \<mapsto> JNull)\<rparr>"
  have h: "status_code ?r1 = 201 \<and> body ?r1 = Json (JObj [(''id'', JStr ''rfp-1'')]) \<and>
      map_of [(''id'', JStr ''rfp-1'')] ''id'' = Some (JStr ''rfp-1'') \<and>
      status_code ?r2 = 200 \<and> body ?r2 = Json (JObj [(''id'', JStr ''rfp-1'')]) \<and>
      py_eq (case map_of [(''id'', JStr ''rfp-1'')] ''id'' of None \<Rightarrow> JNull | Some x \<Rightarrow> x) (JStr ''rfp-1'')"
    by simp
  note s = specific_sent_read_back[OF h, of "[Reply ?r3]" ?us]
  have "\<exists>r1 r2 r3 rest o1 v o2.
         pending ?w1 = Reply r1 # Reply r2 # Reply r3 # rest \<and>
         status_code r1 = 201 \<and> body r1 = Json (JObj o1) \<and> map_of o1 ''id'' = Some v \<and>
         status_code r2 = 200 \<and> body r2 = Json (JObj o2) \<and>
         py_eq (case map_of o2 ''id'' of None \<Rightarrow> JNull | Some x \<Rightarrow> x) v \<and>
         status_code r3 = 404"
    by (intro exI[of _ ?r1] exI[of _ ?r2] exI[of _ ?r3] exI[of _ "[]"]
          exI[of _ "[(''id'', JStr ''rfp-1'')]"] exI[of _ "JStr ''rfp-1''"]) (simp add: start_simps)
  then have "fst (specific_try ?w1) = Inr ()" by (rule specific_try_passes[THEN iffD2])
  then have 1: "outcome ?run = None"
    by (simp add: outcome_def test_specific_unfold)
  have u: "map url (sent (snd ?run)) = map snd (map (\<lambda>q. (verb q, url q)) (sent (snd ?run)))"
    by (simp add: comp_def)
  have 2: "map url (sent (snd ?run)) =
     [[Lit ''http://localhost:5173'', Lit ''/api/rfps''],
      [Lit ''http://localhost:5173'', Lit ''/api/rfps/'', Str (JStr ''rfp-1'')],
      [Lit ''http://localhost:5173'', Lit ''/api/rfps/'', Lit ''nonexistent-u'']]"
    unfolding u s by (simp add: BASE_URL_def)
  have t: "map url (tl (sent (snd ?run))) =
     [[Lit ''http://localhost:5173'', Lit ''/api/rfps/'', Str (JStr ''rfp-1'')],
      [Lit ''http://localhost:5173'', Lit ''/api/rfps/'', Lit ''nonexistent-u'']]"
    unfolding map_tl 2 by simp
  have "(\<forall>q \<in> set (tl (sent (snd ?run))). Str (JStr ''rfp-1'') \<in> set (url q)) \<longleftrightarrow>
        list_all (\<lambda>u. Str (JStr ''rfp-1'') \<in> set u) (map url (tl (sent (snd ?run))))"
    by (simp add: list_all_iff)
  also have "\<dots> \<longleftrightarrow> False" unfolding t by simp
  finally have 3: "\<not> (\<forall>q \<in> set (tl (sent (snd ?run))). Str (JStr ''rfp-1'') \<in> set (url q))"
    by simp
  from 1 2 3 show ?thesis by (intro conjI)
qed

text \<open>
  The captured id 7: read back as 7 the run passes, with the three requests; read back
  as the float 7.0 it passes; read back as the string \<open>7\<close> it fails. The captured id
  \<open>rfp-1\<close> read back as \<open>rfp-2\<close> fails. A POST answered 200 fails, the POST the only request.
\<close>

theorem create_then_get_witness:
  "outcome (test_get_specific_rfp_by_id
      (start [Reply \<lparr>status_code = 201, body = Json (JObj [(''id'', JInt 7)])\<rparr>,
              Reply \<lparr>status_code = 200, body = Json (JObj [(''id'', JInt 7)])\<rparr>,
              Reply \<lparr>status_code = 404, body = NotJson\<rparr>] (\<lambda>n. ''u''))) = None \<and>
   map (\<lambda>q. (verb q, url q)) (sent (snd (test_get_specific_rfp_by_id
      (start [Reply \<lparr>status_code = 201, body = Json (JObj [(''id'', JInt 7)])\<rparr>,
              Reply \<lparr>status_code = 200, body = Json (JObj [(''id'', JInt 7)])\<rparr>,
              Reply \<lparr>status_code = 404, body = NotJson\<rparr>] (\<lambda>n. ''u''))))) =
     [(POST, [Lit BASE_URL, Lit ''/api/rfps'']),
      (GET, [Lit BASE_URL, Lit ''/api/rfps/'', Str (JInt 7)]),
      (GET, [Lit BASE_URL, Lit ''/api/rfps/'', Lit ''nonexistent-u''])] \<and>
   outcome (test_get_specific_rfp_by_id
      (start [Reply \<lparr>status_code = 201, body = Json (JObj [(''id'', JInt 7)])\<rparr>,
              Reply \<lparr>status_code = 200, body = Json (JObj [(''id'', JFloat 7)])\<rparr>,
              Reply \<lparr>status_code = 404, body = NotJson\<rparr>] (\<lambda>n. ''u''))) = None \<and>
   outcome (test_get_specific_rfp_by_id
      (start [Reply \<lparr>status_code = 201, body = Json (JObj [(''id'', JInt 7)])\<rparr>,
              Reply \<lparr>status_code = 200, body = Json (JObj [(''id'', JStr ''7'')])\<rparr>,
              Reply \<lparr>status_code = 404, body = NotJson\<rparr>] (\<lambda>n. ''u''))) \<noteq> None \<and>
   outcome (test_get_specific_rfp_by_id
      (start [Reply \<lparr>status_code = 201, body = Json (JObj [(''id'', JStr ''rfp-1'')])\<rparr>,
              Reply \<lparr>status_code = 200, body = Json (JObj [(''id'', JStr ''rfp-2'')])\<rparr>,
              Reply \<lparr>status_code = 404, body = NotJson\<rparr>] (\<lambda>n. ''u''))) \<noteq> None \<and>
   outcome (test_get_specific_rfp_by_id
      (start [Reply \<lparr>status_code = 200, body = Json (JObj [(''id'', JStr ''rfp-1'')])\<rparr>,
              Reply \<lparr>status_code = 200, body = Json (JObj [(''id'', JStr ''rfp-1'')])\<rparr>]
         (\<lambda>n. ''u''))) \<noteq> None \<and>
   map verb (sent (snd (test_get_specific_rfp_by_id
      (start [Reply \<lparr>status_code = 200, body = Json (JObj [(''id'', JStr ''rfp-1'')])\<rparr>,
              Reply \<lparr>status_code = 200, body = Json (JObj [(''id'', JStr ''rfp-1'')])\<rparr>]
         (\<lambda>n. ''u''))))) = [POST]"
proof -
  let ?c7 = "\<lparr>status_code = 201, body = Json (JObj [(''id'', JInt 7)])\<rparr>"
  let ?g7 = "\<lparr>status_code = 200, body = Json (JObj [(''id'', JInt 7)])\<rparr>"
  let ?gf = "\<lparr>status_code = 200, body = Json (JObj [(''id'', JFloat 7)])\<rparr>"
  let ?gs = "\<lparr>status_code = 200, body = Json (JObj [(''id'', JStr ''7'')])\<rparr>"
  let ?c1 = "\<lparr>status_code = 201, body = Json (JObj [(''id'', JStr ''rfp-1'')])\<rparr>"
  let ?g1 = "\<lparr>status_code = 200, body = Json (JObj [(''id'', JStr ''rfp-1'')])\<rparr>"
  let ?g2 = "\<lparr>status_code = 200, body = Json (JObj [(''id'', JStr ''rfp-2'')])\<rparr>"
  let ?nf = "\<lparr>status_code = 404, body = NotJson\<rparr>"
  let ?us = "\<lambda>n::nat. ''u''"
  note A = create_then_get[of "[Reply ?c7, Reply ?g7, Reply ?nf]" ?us]
  note B = create_then_get[of "[Reply ?c7, Reply ?gf, Reply ?nf]" ?us]
  note C = create_then_get[of "[Reply ?c7, Reply ?gs, Reply ?nf]" ?us]
  note D = create_then_get[of "[Reply ?c1, Reply ?g2, Reply ?nf]" ?us]
  note E = create_then_get[of "[Reply ?g1, Reply ?g1]" ?us]
  have "\<exists>r1 r2 r3 rest o1 v o2.
         [Reply ?c7, Reply ?g7, Reply ?nf] = Reply r1 # Reply r2 # Reply r3 # rest \<and>
         status_code r1 = 201 \<and> body r1 = Json (JObj o1) \<and> map_of o1 ''id'' = Some v \<and>
         status_code r2 = 200 \<and> body r2 = Json (JObj o2) \<and>
         py_eq (case map_of o2 ''id'' of None \<Rightarrow> JNull | Some x \<Rightarrow> x) v \<and>
         status_code r3 = 404"
    by (intro exI[of _ ?c7] exI[of _ ?g7] exI[of _ ?nf] exI[of _ "[]"]
          exI[of _ "[(''id'', JInt 7)]"] exI[of _ "JInt 7"]) simp
  then have 1: "outcome (test_get_specific_rfp_by_id (start [Reply ?c7, Reply ?g7, Reply ?nf] ?us)) = None"
    by (rule A[THEN conjunct1, THEN iffD2])
  have "[Reply ?c7, Reply ?g7, Reply ?nf] = Reply ?c7 # Reply ?g7 # [Reply ?nf] \<and>
      status_code ?c7 = 201 \<and> body ?c7 = Json (JObj [(''id'', JInt 7)]) \<and>
      map_of [(''id'', JInt 7)] ''id'' = Some (JInt 7) \<and>
      status_code ?g7 = 200 \<and> body ?g7 = Json (JObj [(''id'', JInt 7)]) \<and>
      py_eq (case map_of [(''id'', JInt 7)] ''id'' of None \<Rightarrow> JNull | Some x \<Rightarrow> x) (JInt 7)"
    by simp
  then have 2: "map (\<lambda>q. (verb q, url q)) (sent (snd (test_get_specific_rfp_by_id
      (start [Reply ?c7, Reply ?g7, Reply ?nf] ?us)))) =
     [(POST, [Lit BASE_URL, Lit ''/api/rfps'']),
      (GET, [Lit BASE_URL, Lit ''/api/rfps/'', Str (JInt 7)]),
      (GET, [Lit BASE_URL, Lit ''/api/rfps/'', Lit (''nonexistent-'' @ ?us 2)])]"
    by (rule A[THEN conjunct2, THEN conjunct2, THEN conjunct2, THEN conjunct2, THEN conjunct2, rule_format])
  have "\<exists>r1 r2 r3 rest o1 v o2.
         [Reply ?c7, Reply ?gf, Reply ?nf] = Reply r1 # Reply r2 # Reply r3 # rest \<and>
         status_code r1 = 201 \<and> body r1 = Json (JObj o1) \<and> map_of o1 ''id'' = Some v \<and>
         status_code r2 = 200 \<and> body r2 = Json (JObj o2) \<and>
         py_eq (case map_of o2 ''id'' of None \<Rightarrow> JNull | Some x \<Rightarrow> x) v \<and>
         status_code r3 = 404"
    by (intro exI[of _ ?c7] exI[of _ ?gf] exI[of _ ?nf] exI[of _ "[]"]
          exI[of _ "[(''id'', JInt 7)]"] exI[of _ "JInt 7"] exI[of _ "[(''id'', JFloat 7)]"]) simp
  then have 3: "outcome (test_get_specific_rfp_by_id (start [Reply ?c7, Reply ?gf, Reply ?nf] ?us)) = None"
    by (rule B[THEN conjunct1, THEN iffD2])
  have 4: "outcome (test_get_specific_rfp_by_id (start [Reply ?c7, Reply ?gs, Reply ?nf] ?us)) \<noteq> None"
    unfolding C[THEN conjunct1] by simp
  have 5: "outcome (test_get_specific_rfp_by_id (start [Reply ?c1, Reply ?g2, Reply ?nf] ?us)) \<noteq> None"
    unfolding D[THEN conjunct1] by simp
  have "[Reply ?g1, Reply ?g1] = Reply ?g1 # [Reply ?g1] \<and> status_code ?g1 \<noteq> 201"
    by simp
  then have 6: "outcome (test_get_specific_rfp_by_id (start [Reply ?g1, Reply ?g1] ?us)) \<noteq> None \<and>
      map verb (sent (snd (test_get_specific_rfp_by_id (start [Reply ?g1, Reply ?g1] ?us)))) = [POST]"
    by (rule E[THEN conjunct2, THEN conjunct2, THEN conjunct2, THEN conjunct2, THEN conjunct1, rule_format])
  from 1 2 3 4 5 6 show ?thesis by (intro conjI) simp_all
qed

text \<open>
  C5. The step that asks for a fresh non-existent id passes exactly when the reply is a
  response with status 404; no reply, or any other status (200 and 500 among them), fails
  it. Inside the test, once the two earlier steps have passed, the run passes exactly
  when the third reply has status 404.
\<close>

theorem non_existent_id_expects_404:
  "(outcome (get_non_existent_rfp w) = None \<longleftrightarrow>
      (\<exists>r rest. pending w = Reply r # rest \<and> status_code r = 404)) \<and>
   sent (snd (get_non_existent_rfp w)) =
     sent w @ [\<lparr>verb = GET,
                url = [Lit BASE_URL, Lit ''/api/rfps/'', Lit (''nonexistent-'' @ uuids w (drawn w))],
                params = [], json_payload = None, headers = HEADERS, timeout = TIMEOUT\<rparr>] \<and>
   (\<forall>r1 r2 o1 v o2 rs3.
      status_code r1 = 201 \<and> body r1 = Json (JObj o1) \<and> map_of o1 ''id'' = Some v \<and>
      status_code r2 = 200 \<and> body r2 = Json (JObj o2) \<and>
      py_eq (case map_of o2 ''id'' of None \<Rightarrow> JNull | Some x \<Rightarrow> x) v \<longrightarrow>
      (outcome (test_get_specific_rfp_by_id (start (Reply r1 # Reply r2 # rs3) us)) = None \<longleftrightarrow>
         (\<exists>r3 rest. rs3 = Reply r3 # rest \<and> status_code r3 = 404)))"
proof -
  have A: "outcome (get_non_existent_rfp w) = None \<longleftrightarrow>
      (\<exists>r rest. pending w = Reply r # rest \<and> status_code r = 404)"
    unfolding get_non_existent_rfp_Inr[symmetric] by (simp add: outcome_def split: sum.splits)
  have B: "sent (snd (get_non_existent_rfp w)) =
     sent w @ [\<lparr>verb = GET,
                url = [Lit BASE_URL, Lit ''/api/rfps/'', Lit (''nonexistent-'' @ uuids w (drawn w))],
                params = [], json_payload = None, headers = HEADERS, timeout = TIMEOUT\<rparr>]"
    by (simp add: get_non_existent_rfp_sent get_request_def)
  have C: "outcome (test_get_specific_rfp_by_id (start (Reply r1 # Reply r2 # rs3) us)) = None \<longleftrightarrow>
         (\<exists>r3 rest. rs3 = Reply r3 # rest \<and> status_code r3 = 404)"
    if "status_code r1 = 201 \<and> body r1 = Json (JObj o1) \<and> map_of o1 ''id'' = Some v \<and>
      status_code r2 = 200 \<and> body r2 = Json (JObj o2) \<and>
      py_eq (case map_of o2 ''id'' of None \<Rightarrow> JNull | Some x \<Rightarrow> x) v" for r1 r2 o1 v o2 rs3
  proof -
    let ?w1 = "(start (Reply r1 # Reply r2 # rs3) us)\<lparr>locals :=
        (locals (start (Reply r1 # Reply r2 # rs3) us))(''rfp_id'' \<mapsto> JNull)\<rparr>"
    have "outcome (test_get_specific_rfp_by_id (start (Reply r1 # Reply r2 # rs3) us)) = None \<longleftrightarrow>
        fst (specific_try ?w1) = Inr ()"
      by (simp add: outcome_def test_specific_unfold split: sum.splits)
    then show ?thesis unfolding specific_try_passes using that by (auto simp: start_simps)
  qed
  show ?thesis
  proof (intro conjI allI impI)
    show "outcome (get_non_existent_rfp w) = None \<longleftrightarrow>
      (\<exists>r rest. pending w = Reply r # rest \<and> status_code r = 404)"
      by (rule A)
  next
    show "sent (snd (get_non_existent_rfp w)) =
     sent w @ [\<lparr>verb = GET,
                url = [Lit BASE_URL, Lit ''/api/rfps/'', Lit (''nonexistent-'' @ uuids w (drawn w))],
                params = [], json_payload = None, headers = HEADERS, timeout = TIMEOUT\<rparr>]"
      by (rule B)
  next
    fix r1 r2 :: response and o1 o2 :: "(string \<times> json) list" and v :: json and rs3 :: "reply list"
    assume h: "status_code r1 = 201 \<and> body r1 = Json (JObj o1) \<and> map_of o1 ''id'' = Some v \<and>
      status_code r2 = 200 \<and> body r2 = Json (JObj o2) \<and>
      py_eq (case map_of o2 ''id'' of None \<Rightarrow> JNull | Some x \<Rightarrow> x) v"
    show "outcome (test_get_specific_rfp_by_id (start (Reply r1 # Reply r2 # rs3) us)) = None \<longleftrightarrow>
         (\<exists>r3 rest. rs3 = Reply r3 # rest \<and> status_code r3 = 404)"
      by (rule C[OF h])
  qed
qed


text \<open>After two passing steps: 404 passes, 200 and 500 fail.\<close>

theorem non_existent_id_expects_404_witness:
  "outcome (test_get_specific_rfp_by_id
      (start [Reply \<lparr>status_code = 201, body = Json (JObj [(''id'', JStr ''rfp-1'')])\<rparr>,
              Reply \<lparr>status_code = 200, body = Json (JObj [(''id'', JStr ''rfp-1'')])\<rparr>,
              Reply \<lparr>status_code = 404, body = NotJson\<rparr>] (\<lambda>n. ''u''))) = None \<and>
   outcome (test_get_specific_rfp_by_id
      (start [Reply \<lparr>status_code = 201, body = Json (JObj [(''id'', JStr ''rfp-1'')])\<rparr>,
              Reply \<lparr>status_code = 200, body = Json (JObj [(''id'', JStr ''rfp-1'')])\<rparr>,
              Reply \<lparr>status_code = 200, body = NotJson\<rparr>] (\<lambda>n. ''u''))) \<noteq> None \<and>
   outcome (test_get_specific_rfp_by_id
      (start [Reply \<lparr>status_code = 201, body = Json (JObj [(''id'', JStr ''rfp-1'')])\<rparr>,
              Reply \<lparr>status_code = 200, body = Json (JObj [(''id'', JStr ''rfp-1'')])\<rparr>,
              Reply \<lparr>status_code = 500, body = NotJson\<rparr>] (\<lambda>n. ''u''))) \<noteq> None"
proof -
  let ?r1 = "\<lparr>status_code = 201, body = Json (JObj [(''id'', JStr ''rfp-1'')])\<rparr>"
  let ?r2 = "\<lparr>status_code = 200, body = Json (JObj [(''id'', JStr ''rfp-1'')])\<rparr>"
  let ?us = "\<lambda>n::nat. ''u''"
  have h: "status_code ?r1 = 201 \<and> body ?r1 = Json (JObj [(''id'', JStr ''rfp-1'')]) \<and>
      map_of [(''id'', JStr ''rfp-1'')] ''id'' = Some (JStr ''rfp-1'') \<and>
      status_code ?r2 = 200 \<and> body ?r2 = Json (JObj [(''id'', JStr ''rfp-1'')]) \<and>
      py_eq (case map_of [(''id'', JStr ''rfp-1'')] ''id'' of None \<Rightarrow> JNull | Some x \<Rightarrow> x) (JStr ''rfp-1'')"
    by simp
  note T = non_existent_id_expects_404[of "start [] ?us" ?us, THEN conjunct2, THEN conjunct2,
      rule_format, OF h]
  have 1: "outcome (test_get_specific_rfp_by_id
      (start [Reply ?r1, Reply ?r2, Reply \<lparr>status_code = 404, body = NotJson\<rparr>] ?us)) = None"
    unfolding T by simp
  have 2: "outcome (test_get_specific_rfp_by_id
      (start [Reply ?r1, Reply ?r2, Reply \<lparr>status_code = 200, body = NotJson\<rparr>] ?us)) \<noteq> None"
    unfolding T by simp
  have 3: "outcome (test_get_specific_rfp_by_id
      (start [Reply ?r1, Reply ?r2, Reply \<lparr>status_code = 500, body = NotJson\<rparr>] ?us)) \<noteq> None"
    unfolding T by simp
  from 1 2 3 show ?thesis by (intro conjI)
qed

section \<open>Cleanup in a finally clause (TC004, TC006)\<close>


lemma statuses_try_finally:
  assumes "fst (fin (snd (m w))) = Inr ()" and "trace (snd (fin (snd (m w)))) = trace (snd (m w))"
  shows "statuses (try_finally m fin w) = statuses (m w)"
  using assms
  by (cases "m w"; cases "fin (snd (m w))") (auto simp: try_finally_def statuses_def outcome_def)

text \<open>A cleanup request inside \<^verbatim>\<open>try ... except Exception: pass\<close> never raises and asserts nothing.\<close>

lemma swallowed_delete:
  "fst (try_except (then_do (requests_delete u hs) (\<lambda>_. ret ())) is_Exception (ret ()) s) = Inr () \<and>
   trace (snd (try_except (then_do (requests_delete u hs) (\<lambda>_. ret ())) is_Exception (ret ()) s)) = trace s \<and>
   locals (snd (try_except (then_do (requests_delete u hs) (\<lambda>_. ret ())) is_Exception (ret ()) s)) = locals s"
  by (simp add: prog_defs http_defs is_Exception_def split: list.splits reply.splits)

lemma documents_cleanup_ok:
  assumes "locals s ''rfp_id'' \<noteq> None"
  shows "fst (documents_cleanup s) = Inr () \<and> trace (snd (documents_cleanup s)) = trace s"
proof -
  from assms obtain v where v: "locals s ''rfp_id'' = Some v" by blast
  then have r: "read_var ''rfp_id'' s = (Inr v, s)" by (simp add: read_var_def)
  show ?thesis
    unfolding documents_cleanup_def
    using swallowed_delete[of "[Lit BASE_URL, Lit ''/api/rfps/'', Str v]" HEADERS s]
    by (simp add: then_do_def r ret_def)
qed

lemma documents_try_keeps_bound: "keeps (\<lambda>w. locals w ''rfp_id'' \<noteq> None) documents_try"
  unfolding documents_try_def requests_post_def requests_get_def
  by (intro keeps_intros) simp_all

lemma documents_statuses:
  "statuses (test_get_documents_for_specific_rfp w) = statuses (documents_main w)"
proof -
  let ?w1 = "w\<lparr>locals := (locals w)(''rfp_id'' \<mapsto> JNull)\<rparr>"
  have b: "locals (snd (documents_try ?w1)) ''rfp_id'' \<noteq> None"
    by (rule keepsD[OF documents_try_keeps_bound]) simp
  have "statuses (try_finally documents_try documents_cleanup ?w1) = statuses (documents_try ?w1)"
    using documents_cleanup_ok[OF b] by (intro statuses_try_finally) simp_all
  then show ?thesis
    by (simp add: test_get_documents_for_specific_rfp_def documents_main_def then_do_def assign_def)
qed

lemma proposal_cleanup_ok:
  assumes "locals s ''rfp_id'' \<noteq> None" and "locals s ''company_profile_id'' \<noteq> None"
  shows "fst (proposal_cleanup s) = Inr () \<and> trace (snd (proposal_cleanup s)) = trace s"
proof -
  from assms obtain v c where v: "locals s ''rfp_id'' = Some v" and c: "locals s ''company_profile_id'' = Some c"
    by blast
  have r: "read_var ''rfp_id'' s = (Inr v, s)" using v by (simp add: read_var_def)
  let ?d1 = "try_except (then_do (requests_delete [Lit BASE_URL, Lit ''/api/rfps/'', Str v] []) (\<lambda>_. ret ()))
               is_Exception (ret ())"
  let ?s1 = "if truthy v then snd (?d1 s) else s"
  have first: "(if truthy v then ?d1 else ret ()) s = (Inr (), ?s1)"
    using swallowed_delete[of "[Lit BASE_URL, Lit ''/api/rfps/'', Str v]" "[]" s]
    by (cases "?d1 s") (auto simp: ret_def)
  have s1: "trace ?s1 = trace s" "locals ?s1 = locals s"
    using swallowed_delete[of "[Lit BASE_URL, Lit ''/api/rfps/'', Str v]" "[]" s] by auto
  have r2: "read_var ''company_profile_id'' ?s1 = (Inr c, ?s1)"
    using c s1(2) by (simp add: read_var_def)
  have i: "in_locals ''new_profile_payload'' ?s1 = (Inr (locals s ''new_profile_payload'' \<noteq> None), ?s1)"
    using s1(2) by (simp add: in_locals_def)
  show ?thesis
    unfolding proposal_cleanup_def
    apply (simp only: then_do_def r first r2 i prod.case sum.case)
    using swallowed_delete[of "[Lit BASE_URL, Lit ''/api/company/'', Str c]" "[]" ?s1] s1(1)
    by (auto simp: ret_def)
qed

lemma proposal_try_keeps_rfp_id: "keeps (\<lambda>w. locals w ''rfp_id'' \<noteq> None) proposal_try"
  unfolding proposal_try_def create_rfp_for_proposal_def get_or_create_company_profile_def
    generate_proposal_def
    requests_post_def requests_get_def
  by (intro keeps_intros) simp_all

lemma proposal_try_keeps_company: "keeps (\<lambda>w. locals w ''company_profile_id'' \<noteq> None) proposal_try"
  unfolding proposal_try_def create_rfp_for_proposal_def get_or_create_company_profile_def
    generate_proposal_def
    requests_post_def requests_get_def
  by (intro keeps_intros) simp_all

lemma proposal_statuses:
  "statuses (test_enhanced_ai_powered_proposal_generation w) = statuses (proposal_main w)"
proof -
  let ?w1 = "w\<lparr>locals := (locals w)(''rfp_id'' \<mapsto> JNull, ''company_profile_id'' \<mapsto> JNull)\<rparr>"
  have b1: "locals (snd (proposal_try ?w1)) ''rfp_id'' \<noteq> None"
    by (rule keepsD[OF proposal_try_keeps_rfp_id]) simp
  have b2: "locals (snd (proposal_try ?w1)) ''company_profile_id'' \<noteq> None"
    by (rule keepsD[OF proposal_try_keeps_company]) simp
  have "statuses (try_finally proposal_try proposal_cleanup ?w1) = statuses (proposal_try ?w1)"
    using proposal_cleanup_ok[OF b1 b2] by (intro statuses_try_finally) simp_all
  then show ?thesis
    by (simp add: test_enhanced_ai_powered_proposal_generation_def proposal_main_def then_do_def assign_def)
qed


text \<open>
  C8. In the two scripts that delete what they created in a \<^verbatim>\<open>finally\<close> clause, every
  cleanup request sits inside \<^verbatim>\<open>try ... except Exception: pass\<close>, so the clause never raises
  and asserts nothing: how the test ends, and the status of every assertion, are those of
  the main body alone. Whatever the DELETE meets, a run whose main body passes passes.
\<close>

theorem cleanup_never_changes_outcome:
  "statuses (test_get_documents_for_specific_rfp w) = statuses (documents_main w) \<and>
   statuses (test_enhanced_ai_powered_proposal_generation w) = statuses (proposal_main w)"
  using documents_statuses proposal_statuses by (intro conjI)

lemmas run_defs = prog_defs http_defs assign_def read_var_def in_locals_def uuid4_def start_def
  py_in_def py_get_def py_subscript_def py_item_def is_Exception_def

text \<open>A run whose DELETE finds no connection: it passes, and the DELETE was sent.\<close>

theorem cleanup_never_changes_outcome_witness:
  "outcome (test_get_documents_for_specific_rfp
      (start [Reply \<lparr>status_code = 201, body = Json (JObj [(''id'', JStr ''r1'')])\<rparr>,
              Reply \<lparr>status_code = 200, body = Json (JArr [])\<rparr>,
              NoConnection] (\<lambda>n. []))) = None \<and>
   map verb (sent (snd (test_get_documents_for_specific_rfp
      (start [Reply \<lparr>status_code = 201, body = Json (JObj [(''id'', JStr ''r1'')])\<rparr>,
              Reply \<lparr>status_code = 200, body = Json (JArr [])\<rparr>,
              NoConnection] (\<lambda>n. []))))) = [POST, GET, DELETE]"
proof -
  let ?w = "start [Reply \<lparr>status_code = 201, body = Json (JObj [(''id'', JStr ''r1'')])\<rparr>,
              Reply \<lparr>status_code = 200, body = Json (JArr [])\<rparr>,
              NoConnection] (\<lambda>n. [])"
  have m: "statuses (documents_main ?w) = (None, replicate 4 Passed)"
    by (simp add: documents_main_def documents_try_def statuses_def outcome_def run_defs numeral_eq_Suc)
  have "statuses (test_get_documents_for_specific_rfp ?w) = (None, replicate 4 Passed)"
    using cleanup_never_changes_outcome[of ?w] m by simp
  then have 1: "outcome (test_get_documents_for_specific_rfp ?w) = None"
    by (simp add: statuses_def)
  have 2: "map verb (sent (snd (test_get_documents_for_specific_rfp ?w))) = [POST, GET, DELETE]"
    by (simp add: test_get_documents_for_specific_rfp_def documents_try_def documents_cleanup_def run_defs)
  from 1 2 show ?thesis by (intro conjI)
qed

section \<open>Which company profile the cleanup deletes (TC006)\<close>












lemma try_finally_snd: "snd (try_finally m fin w) = snd (fin (snd (m w)))"
  by (cases "m w"; cases "fin (snd (m w))") (auto simp: try_finally_def split: sum.splits)









section \<open>Same replies, same statuses\<close>


named_theorems agree_intros

lemma agreeD: "agree m m' \<Longrightarrow> sim w w' \<Longrightarrow> fst (m w) = fst (m' w') \<and> sim (snd (m w)) (snd (m' w'))"
  by (simp add: agree_def)

lemma agree_ret [agree_intros]: "agree (ret a) (ret a)"
  by (simp add: agree_def ret_def)

lemma agree_raise [agree_intros]: "agree (raise e) (raise e)"
  by (simp add: agree_def raise_def)

lemma agree_lift [agree_intros]: "agree (lift r) (lift r)"
  by (simp add: agree_def lift_def)

lemma agree_then_do [agree_intros]:
  assumes "agree m m'" and "\<And>a. agree (g a) (g' a)"
  shows "agree (then_do m g) (then_do m' g')"
  unfolding agree_def
proof (intro allI impI)
  fix w w' assume s: "sim w w'"
  from agreeD[OF assms(1) s] have f: "fst (m w) = fst (m' w')" and s1: "sim (snd (m w)) (snd (m' w'))"
    by simp_all
  show "fst (then_do m g w) = fst (then_do m' g' w') \<and> sim (snd (then_do m g w)) (snd (then_do m' g' w'))"
  proof (cases "fst (m w)")
    case (Inl e)
    then have "fst (m' w') = Inl e" using f by simp
    with Inl s1 show ?thesis by (simp add: then_do_Inl)
  next
    case (Inr a)
    then have "fst (m' w') = Inr a" using f by simp
    with Inr agreeD[OF assms(2) s1, of a] show ?thesis by (simp add: then_do_Inr)
  qed
qed

text \<open>A drawn uuid may differ between two runs, as long as what follows agrees whatever it is.\<close>

lemma agree_uuid4 [agree_intros]:
  assumes "\<And>u u'. agree (g u) (g' u')"
  shows "agree (then_do uuid4 g) (then_do uuid4 g')"
  unfolding agree_def
proof (intro allI impI)
  fix w w' assume s: "sim w w'"
  then have "sim (w\<lparr>drawn := Suc (drawn w)\<rparr>) (w'\<lparr>drawn := Suc (drawn w')\<rparr>)"
    by (simp add: sim_def)
  from agreeD[OF assms this]
  show "fst (then_do uuid4 g w) = fst (then_do uuid4 g' w') \<and>
        sim (snd (then_do uuid4 g w)) (snd (then_do uuid4 g' w'))"
    by (simp add: then_do_def uuid4_def)
qed

text \<open>Two requests may differ: what comes back is the next pending reply.\<close>

lemma agree_requests_request [agree_intros]: "agree (requests_request rq) (requests_request rq')"
  by (auto simp: agree_def sim_def requests_request_def split: list.splits reply.splits)

lemma agree_requests_get [agree_intros]: "agree (requests_get u ps hs) (requests_get u' ps' hs')"
  by (simp add: requests_get_def agree_requests_request)

lemma agree_requests_post [agree_intros]: "agree (requests_post u j hs) (requests_post u' j' hs')"
  by (simp add: requests_post_def agree_requests_request)

lemma agree_requests_delete [agree_intros]: "agree (requests_delete u hs) (requests_delete u' hs')"
  by (simp add: requests_delete_def agree_requests_request)

lemma agree_py_assert [agree_intros]: "agree (py_assert c) (py_assert c)"
  by (simp add: agree_def sim_def py_assert_def)

lemma agree_assert_False [agree_intros]: "agree assert_False assert_False"
  by (simp add: agree_def sim_def assert_False_def)

lemma agree_assign [agree_intros]: "agree (assign x v) (assign x v)"
  by (simp add: agree_def sim_def assign_def)

lemma agree_read_var [agree_intros]: "agree (read_var x) (read_var x)"
  by (simp add: agree_def sim_def read_var_def split: option.splits)

lemma agree_in_locals [agree_intros]: "agree (in_locals x) (in_locals x)"
  by (simp add: agree_def sim_def in_locals_def)

lemma agree_raise_for_status [agree_intros]: "agree (raise_for_status r) (raise_for_status r)"
  by (simp add: raise_for_status_def agree_intros)

lemma agree_response_json [agree_intros]: "agree (response_json r) (response_json r)"
  by (cases "body r") (simp_all add: response_json_def agree_intros)

lemma agree_if [agree_intros]:
  "agree a a' \<Longrightarrow> agree b b' \<Longrightarrow> agree (if c then a else b) (if c then a' else b')"
  by simp

lemma agree_try_except [agree_intros]:
  assumes "agree m m'" and "agree h h'"
  shows "agree (try_except m c h) (try_except m' c h')"
  unfolding agree_def
proof (intro allI impI)
  fix w w' assume s: "sim w w'"
  from agreeD[OF assms(1) s] have f: "fst (m w) = fst (m' w')" and s1: "sim (snd (m w)) (snd (m' w'))"
    by simp_all
  from agreeD[OF assms(2) s1] f s1
  show "fst (try_except m c h w) = fst (try_except m' c h' w') \<and>
        sim (snd (try_except m c h w)) (snd (try_except m' c h' w'))"
    by (cases "m w"; cases "m' w'") (auto simp: try_except_def split: sum.splits)
qed

lemma agree_try_finally [agree_intros]:
  assumes "agree m m'" and "agree fin fin'"
  shows "agree (try_finally m fin) (try_finally m' fin')"
  unfolding agree_def
proof (intro allI impI)
  fix w w' assume s: "sim w w'"
  from agreeD[OF assms(1) s] have f: "fst (m w) = fst (m' w')" and s1: "sim (snd (m w)) (snd (m' w'))"
    by simp_all
  from agreeD[OF assms(2) s1] f
  show "fst (try_finally m fin w) = fst (try_finally m' fin' w') \<and>
        sim (snd (try_finally m fin w)) (snd (try_finally m' fin' w'))"
    by (cases "m w"; cases "m' w'"; cases "fin (snd (m w))"; cases "fin' (snd (m' w'))")
       (auto simp: try_finally_def split: sum.splits)
qed
















section \<open>The browser session: what is acquired and what is released\<close>


lemma awaited_run:
  "awaited c s =
     (case replies s (length (calls s)) c of
        Throws e \<Rightarrow> (Inl e, s\<lparr>calls := calls s @ [(c, Throws e)]\<rparr>)
      | r \<Rightarrow> (Inr (), s\<lparr>calls := calls s @ [(c, r)]\<rparr>))"
  by (simp add: awaited_def await_def then_do_def ret_def Let_def split: ui_reply.splits)

lemma keeps_await [keeps_intros]:
  "(\<And>s r. P s \<Longrightarrow> P (s\<lparr>calls := calls s @ [(c, r)]\<rparr>)) \<Longrightarrow> keeps P (await c)"
  by (simp add: keeps_def await_def Let_def split: ui_reply.splits)

lemma keeps_awaited [keeps_intros]:
  "(\<And>s r. P s \<Longrightarrow> P (s\<lparr>calls := calls s @ [(c, r)]\<rparr>)) \<Longrightarrow> keeps P (awaited c)"
  unfolding awaited_def by (intro keeps_intros)

lemma keeps_wait_loaded [keeps_intros]:
  "(\<And>s r. P s \<Longrightarrow> P (s\<lparr>calls := calls s @ [(Wait_for_load_state, r)]\<rparr>)) \<Longrightarrow> keeps P wait_loaded"
  unfolding wait_loaded_def by (intro keeps_intros)

lemma keeps_wait_frames:
  "(\<And>s r. P s \<Longrightarrow> P (s\<lparr>calls := calls s @ [(Wait_for_load_state, r)]\<rparr>)) \<Longrightarrow> keeps P (wait_frames n)"
  by (induction n) (auto intro!: keeps_intros)

lemma keeps_wait_all_frames [keeps_intros]:
  "(\<And>s r. P s \<Longrightarrow> P (s\<lparr>calls := calls s @ [(Wait_for_load_state, r)]\<rparr>)) \<Longrightarrow>
   keeps P (\<lambda>s. wait_frames (frame_count s) s)"
  using keeps_wait_frames[of P] unfolding keeps_def by blast

lemma keeps_do_action:
  assumes "\<And>s c r. P s \<Longrightarrow> interaction c \<Longrightarrow> P (s\<lparr>calls := calls s @ [(c, r)]\<rparr>)"
  shows "keeps P (do_action a)"
  by (cases a) (auto intro!: keeps_intros assms)

lemma keeps_run_actions [keeps_intros]:
  assumes "\<And>s c r. P s \<Longrightarrow> interaction c \<Longrightarrow> P (s\<lparr>calls := calls s @ [(c, r)]\<rparr>)"
  shows "keeps P (run_actions acts)"
  by (induction acts) (auto intro!: keeps_intros keeps_do_action assms)

lemma keeps_session_rest:
  assumes "\<And>s c r. P s \<Longrightarrow> interaction c \<Longrightarrow> P (s\<lparr>calls := calls s @ [(c, r)]\<rparr>)"
  shows "keeps P (session_rest acts)"
  unfolding session_rest_def by (intro keeps_intros assms) simp_all

lemma acquired_append: "acquired (cs @ [x]) = acquired cs @ (case acquires x of None \<Rightarrow> [] | Some r \<Rightarrow> [r])"
  by (simp add: acquired_def List.map_filter_def split: option.splits)

lemma released_append: "released (cs @ [x]) = released cs @ (case releases x of None \<Rightarrow> [] | Some r \<Rightarrow> [r])"
  by (simp add: released_def List.map_filter_def split: option.splits)

lemma interaction_neutral: "interaction c \<Longrightarrow> acquires (c, r) = None \<and> releases (c, r) = None"
  by (cases c) simp_all

text \<open>Once the three are acquired, the rest of the \<^verbatim>\<open>try\<close> block changes none of this.\<close>

lemma session_rest_keeps_resources:
  "keeps (\<lambda>s. replies s = env \<and> acquired (calls s) = A \<and> released (calls s) = R \<and>
              pw s = a \<and> browser s = b \<and> context_var s = c) (session_rest acts)"
  by (rule keeps_session_rest) (simp add: acquired_append released_append interaction_neutral)


lemma session_try_unfold:
  "session_try acts =
     then_do (awaited Start_playwright) (\<lambda>_.
     then_do (set_pw True) (\<lambda>_.
     then_do (awaited Launch_chromium) (\<lambda>_.
     then_do (set_browser True) (\<lambda>_.
     then_do (awaited New_context) (\<lambda>_.
     then_do (set_context True) (\<lambda>_.
     session_rest acts))))))"
  by (simp add: session_try_def session_rest_def)

lemma awaited_returns:
  "returned (replies s (length (calls s)) c) \<Longrightarrow>
   awaited c s = (Inr (), s\<lparr>calls := calls s @ [(c, replies s (length (calls s)) c)]\<rparr>)"
  by (cases "replies s (length (calls s)) c") (simp_all add: awaited_run)

lemma awaited_throws:
  "replies s (length (calls s)) c = Throws e \<Longrightarrow>
   awaited c s = (Inl e, s\<lparr>calls := calls s @ [(c, Throws e)]\<rparr>)"
  by (simp add: awaited_run)

lemma session_rest_ended: "keeps (ended env A a b c) (session_rest acts)"
  unfolding ended_def
  by (rule keeps_session_rest) (simp add: acquired_append released_append interaction_neutral)

lemma session_try_ended:
  assumes "calls s = []" and "\<not> pw s" and "\<not> browser s" and "\<not> context_var s"
  shows "ended (replies s) (got (replies s))
           (returned (replies s 0 Start_playwright))
           (returned (replies s 0 Start_playwright) \<and> returned (replies s 1 Launch_chromium))
           (returned (replies s 0 Start_playwright) \<and> returned (replies s 1 Launch_chromium) \<and>
            returned (replies s 2 New_context))
           (snd (session_try acts s))"
proof (cases "returned (replies s 0 Start_playwright)")
  case False
  then obtain e where "replies s 0 Start_playwright = Throws e"
    by (cases "replies s 0 Start_playwright") simp_all
  with assms show ?thesis
    by (simp add: session_try_unfold then_do_def awaited_throws ended_def got_def acquired_def released_def
        List.map_filter_def)
next
  case True
  note r0 = this
  show ?thesis
  proof (cases "returned (replies s 1 Launch_chromium)")
    case False
    then obtain e where "replies s 1 Launch_chromium = Throws e"
      by (cases "replies s 1 Launch_chromium") simp_all
    with assms r0 show ?thesis
      by (simp add: session_try_unfold then_do_def awaited_throws awaited_returns set_pw_def
          ended_def got_def acquired_def released_def List.map_filter_def)
  next
    case True
    note r1 = this
    show ?thesis
    proof (cases "returned (replies s 2 New_context)")
      case False
      then obtain e where "replies s 2 New_context = Throws e"
        by (cases "replies s 2 New_context") simp_all
      with assms r0 r1 show ?thesis
        by (simp add: session_try_unfold then_do_def awaited_throws awaited_returns set_pw_def
            set_browser_def ended_def got_def acquired_def released_def List.map_filter_def numeral_2_eq_2)
    next
      case True
      note r2 = this
      show ?thesis
        using assms r0 r1 r2
        apply (simp add: session_try_unfold then_do_def awaited_returns set_pw_def
            set_browser_def set_context_def numeral_2_eq_2 got_def)
        apply (rule keepsD[OF session_rest_ended])
        apply (simp add: ended_def got_def acquired_def released_def List.map_filter_def)
        done
    qed
  qed
qed


lemma acquired_simps:
  "acquired [] = []"
  "acquired (x # xs) = (case acquires x of None \<Rightarrow> acquired xs | Some r \<Rightarrow> r # acquired xs)"
  "acquired (cs @ ds) = acquired cs @ acquired ds"
  by (simp_all add: acquired_def List.map_filter_def split: option.splits)

lemma released_simps:
  "released [] = []"
  "released (x # xs) = (case releases x of None \<Rightarrow> released xs | Some r \<Rightarrow> r # released xs)"
  "released (cs @ ds) = released cs @ released ds"
  by (simp_all add: released_def List.map_filter_def split: option.splits)

lemma close_if_run:
  "close_if var r s =
     (if var s
      then (case replies s (length (calls s)) (Close r) of
              Throws e \<Rightarrow> (Inl e, s\<lparr>calls := calls s @ [(Close r, Throws e)]\<rparr>)
            | x \<Rightarrow> (Inr (), s\<lparr>calls := calls s @ [(Close r, x)]\<rparr>))
      else (Inr (), s))"
  by (simp add: close_if_def awaited_run)

lemma close_if_returns:
  "returned (replies s (length (calls s)) (Close r)) \<Longrightarrow>
   close_if var r s =
     (if var s then (Inr (), s\<lparr>calls := calls s @ [(Close r, replies s (length (calls s)) (Close r))]\<rparr>)
      else (Inr (), s))"
  by (cases "replies s (length (calls s)) (Close r)") (simp_all add: close_if_run)

lemma close_if_state:
  "replies (snd (close_if var r s)) = replies s \<and> pw (snd (close_if var r s)) = pw s \<and>
   browser (snd (close_if var r s)) = browser s \<and> context_var (snd (close_if var r s)) = context_var s \<and>
   acquired (calls (snd (close_if var r s))) = acquired (calls s)"
  by (cases "replies s (length (calls s)) (Close r)") (simp_all add: close_if_run acquired_simps)

lemma close_if_released_Inr:
  "fst (close_if var r s) = Inr () \<Longrightarrow>
   released (calls (snd (close_if var r s))) = released (calls s) @ (if var s then [r] else [])"
  by (cases "replies s (length (calls s)) (Close r)")
     (simp_all add: close_if_run released_simps split: if_splits)

lemma close_if_released_Inl:
  "fst (close_if var r s) = Inl e \<Longrightarrow> released (calls (snd (close_if var r s))) = released (calls s)"
  by (cases "replies s (length (calls s)) (Close r)")
     (simp_all add: close_if_run released_simps split: if_splits)

lemma session_finally_released:
  assumes "ended env A a b c t"
  shows "acquired (calls (snd (session_finally t))) = A \<and>
         prefix (released (calls (snd (session_finally t))))
           ((if c then [Context] else []) @ (if b then [Browser] else []) @ (if a then [Playwright] else []))"
proof -
  from assms have e: "replies t = env" "acquired (calls t) = A" "released (calls t) = []"
    "pw t = a" "browser t = b" "context_var t = c"
    by (simp_all add: ended_def)
  let ?t1 = "snd (close_if context_var Context t)"
  let ?t2 = "snd (close_if browser Browser ?t1)"
  let ?t3 = "snd (close_if pw Playwright ?t2)"
  note st1 = close_if_state[of context_var Context t]
  note st2 = close_if_state[of browser Browser ?t1]
  note st3 = close_if_state[of pw Playwright ?t2]
  show ?thesis
  proof (cases "fst (close_if context_var Context t)")
    case (Inl x)
    then have "session_finally t = (Inl x, ?t1)"
      unfolding session_finally_def by (simp add: then_do_Inl)
    with close_if_released_Inl[OF Inl] st1 e show ?thesis by simp
  next
    case (Inr u)
    then have r1: "released (calls ?t1) = (if c then [Context] else [])"
      using close_if_released_Inr[of context_var Context t] e by simp
    have u1: "session_finally t = then_do (close_if browser Browser) (\<lambda>_. close_if pw Playwright) ?t1"
      unfolding session_finally_def using Inr by (simp add: then_do_Inr)
    show ?thesis
    proof (cases "fst (close_if browser Browser ?t1)")
      case (Inl x)
      then have "session_finally t = (Inl x, ?t2)"
        unfolding u1 by (simp add: then_do_Inl)
      with close_if_released_Inl[OF Inl] st1 st2 e r1 show ?thesis by simp
    next
      case (Inr u')
      then have r2: "released (calls ?t2) = (if c then [Context] else []) @ (if b then [Browser] else [])"
        using close_if_released_Inr[of browser Browser ?t1] st1 e r1 by simp
      have u2: "session_finally t = close_if pw Playwright ?t2"
        unfolding u1 using Inr by (simp add: then_do_Inr)
      show ?thesis
      proof (cases "fst (close_if pw Playwright ?t2)")
        case (Inl x)
        with close_if_released_Inl[OF Inl] st1 st2 st3 e r2 show ?thesis unfolding u2 by simp
      next
        case (Inr u'')
        with close_if_released_Inr[of pw Playwright ?t2] st1 st2 st3 e r2 show ?thesis
          unfolding u2 by simp
      qed
    qed
  qed
qed

lemma session_finally_all_closed:
  assumes "ended env A a b c t" and "\<forall>i r. returned (env i (Close r))"
  shows "released (calls (snd (session_finally t))) =
           (if c then [Context] else []) @ (if b then [Browser] else []) @ (if a then [Playwright] else []) \<and>
         fst (session_finally t) = Inr ()"
proof -
  from assms have e: "replies t = env" "acquired (calls t) = A" "released (calls t) = []"
    "pw t = a" "browser t = b" "context_var t = c"
    by (simp_all add: ended_def)
  show ?thesis
    using e assms(2) unfolding session_finally_def
    by (simp add: then_do_def close_if_returns released_simps)
qed


lemma launch_simps:
  "replies (launch env n) = env" "frame_count (launch env n) = n" "calls (launch env n) = []"
  "pw (launch env n) = False" "browser (launch env n) = False" "context_var (launch env n) = False"
  by (simp_all add: launch_def)

lemma run_test_unfold:
  "run_test acts (launch env n) = try_finally (session_try acts) session_finally (launch env n)"
  by (simp add: run_test_def then_do_def set_pw_def set_browser_def set_context_def launch_def)

lemma session_main_unfold: "session_main acts (launch env n) = session_try acts (launch env n)"
  by (simp add: session_main_def then_do_def set_pw_def set_browser_def set_context_def launch_def)

lemma run_test_final:
  "snd (run_test acts (launch env n)) = snd (session_finally (snd (session_try acts (launch env n))))"
  by (simp add: run_test_unfold try_finally_snd)

lemma run_test_resources:
  "acquired (calls (snd (run_test acts (launch env n)))) = got env \<and>
   prefix (released (calls (snd (run_test acts (launch env n))))) (rev (got env)) \<and>
   ((\<forall>i r. returned (env i (Close r))) \<longrightarrow>
      released (calls (snd (run_test acts (launch env n)))) = rev (got env) \<and>
      fst (session_finally (snd (session_try acts (launch env n)))) = Inr ())"
proof -
  let ?t = "snd (session_try acts (launch env n))"
  let ?a = "returned (env 0 Start_playwright)"
  let ?b = "returned (env 0 Start_playwright) \<and> returned (env 1 Launch_chromium)"
  let ?c = "returned (env 0 Start_playwright) \<and> returned (env 1 Launch_chromium) \<and> returned (env 2 New_context)"
  have e: "ended env (got env) ?a ?b ?c ?t"
    using session_try_ended[of "launch env n" acts] unfolding launch_simps by simp
  have r: "(if ?c then [Context] else []) @ (if ?b then [Browser] else []) @ (if ?a then [Playwright] else []) =
           rev (got env)"
    by (simp add: got_def)
  from session_finally_released[OF e] session_finally_all_closed[OF e]
  show ?thesis unfolding run_test_final r by blast
qed

lemma close_if_calls:
  "calls (snd (close_if var r s)) =
     calls s @ (if var s then [(Close r, replies s (length (calls s)) (Close r))] else [])"
  by (cases "replies s (length (calls s)) (Close r)") (simp_all add: close_if_run)

lemma close_if_fst:
  "fst (close_if var r s) =
     (if var s then (case replies s (length (calls s)) (Close r) of Throws e \<Rightarrow> Inl e | _ \<Rightarrow> Inr ())
      else Inr ())"
  by (cases "replies s (length (calls s)) (Close r)") (simp_all add: close_if_run)

lemma close_if_fst_returned:
  "(\<exists>u. fst (close_if var r s) = Inr u) \<longleftrightarrow> (var s \<longrightarrow> returned (replies s (length (calls s)) (Close r)))"
  by (cases "replies s (length (calls s)) (Close r)") (simp_all add: close_if_run)

lemma session_finally_calls:
  assumes "ended env A a b c t"
  shows "calls (snd (session_finally t)) =
           calls t @ attempted env (length (calls t))
             ((if c then [Context] else []) @ (if b then [Browser] else []) @ (if a then [Playwright] else []))"
proof -
  from assms have e: "replies t = env" "pw t = a" "browser t = b" "context_var t = c"
    by (simp_all add: ended_def)
  let ?t1 = "snd (close_if context_var Context t)"
  let ?t2 = "snd (close_if browser Browser ?t1)"
  let ?t3 = "snd (close_if pw Playwright ?t2)"
  note st1 = close_if_state[of context_var Context t]
  note st2 = close_if_state[of browser Browser ?t1]
  note c1 = close_if_calls[of context_var Context t]
  note c2 = close_if_calls[of browser Browser ?t1]
  note c3 = close_if_calls[of pw Playwright ?t2]
  show ?thesis
  proof (cases "fst (close_if context_var Context t)")
    case (Inl x)
    then have "session_finally t = (Inl x, ?t1)"
      unfolding session_finally_def by (simp add: then_do_Inl)
    moreover from Inl close_if_fst_returned[of context_var Context t] e
    have "c \<and> \<not> returned (env (length (calls t)) (Close Context))" by auto
    ultimately show ?thesis using c1 e by - (cases c; cases b; cases a; simp)
  next
    case (Inr u)
    with close_if_fst_returned[of context_var Context t] e
    have k1: "c \<longrightarrow> returned (env (length (calls t)) (Close Context))" by auto
    have u1: "session_finally t = then_do (close_if browser Browser) (\<lambda>_. close_if pw Playwright) ?t1"
      unfolding session_finally_def using Inr by (simp add: then_do_Inr)
    show ?thesis
    proof (cases "fst (close_if browser Browser ?t1)")
      case (Inl x)
      then have "session_finally t = (Inl x, ?t2)"
        unfolding u1 by (simp add: then_do_Inl)
      moreover from Inl close_if_fst_returned[of browser Browser ?t1] e st1
      have "b \<and> \<not> returned (env (length (calls ?t1)) (Close Browser))" by auto
      ultimately show ?thesis using c1 c2 e st1 k1 by - (cases c; cases b; cases a; simp)
    next
      case (Inr u')
      with close_if_fst_returned[of browser Browser ?t1] e st1
      have k2: "b \<longrightarrow> returned (env (length (calls ?t1)) (Close Browser))" by auto
      have u2: "session_finally t = close_if pw Playwright ?t2"
        unfolding u1 using Inr by (simp add: then_do_Inr)
      show ?thesis unfolding u2 using c1 c2 c3 e st1 st2 k1 k2 by - (cases c; cases b; cases a; simp)
    qed
  qed
qed

lemma released_attempted: "released (attempted env i rs) = closing env i rs"
  by (induction rs arbitrary: i) (simp_all add: released_simps)

lemma acquired_attempted: "acquired (attempted env i rs) = []"
  by (induction rs arbitrary: i) (simp_all add: acquired_simps)

lemma run_test_calls:
  "calls (snd (run_test acts (launch env n))) =
     calls (snd (session_main acts (launch env n))) @
     attempted env (length (calls (snd (session_main acts (launch env n))))) (rev (got env)) \<and>
   acquired (calls (snd (session_main acts (launch env n)))) = got env \<and>
   released (calls (snd (session_main acts (launch env n)))) = []"
proof -
  let ?t = "snd (session_try acts (launch env n))"
  let ?a = "returned (env 0 Start_playwright)"
  let ?b = "returned (env 0 Start_playwright) \<and> returned (env 1 Launch_chromium)"
  let ?c = "returned (env 0 Start_playwright) \<and> returned (env 1 Launch_chromium) \<and> returned (env 2 New_context)"
  have e: "ended env (got env) ?a ?b ?c ?t"
    using session_try_ended[of "launch env n" acts] unfolding launch_simps by simp
  have r: "(if ?c then [Context] else []) @ (if ?b then [Browser] else []) @ (if ?a then [Playwright] else []) =
           rev (got env)"
    by (simp add: got_def)
  from e have "acquired (calls ?t) = got env" "released (calls ?t) = []" by (simp_all add: ended_def)
  with session_finally_calls[OF e] show ?thesis
    unfolding run_test_final session_main_unfold r by simp
qed

text \<open>
  C7, as amended. Whatever the interactions and however the \<^verbatim>\<open>try\<close> block ends (normally
  or by an exception of any step, an acquisition included), the \<^verbatim>\<open>finally\<close> clause runs: the
  calls of the run are those of the \<^verbatim>\<open>try\<close> block, which releases nothing, followed by the
  close calls of what was acquired, in the order context, browser, playwright, up to and
  including the first close call that raises; a resource is released exactly when its
  close call and those before it return.
\<close>

theorem session_release:
  "calls (snd (run_test acts (launch env n))) =
     calls (snd (session_main acts (launch env n))) @
     attempted env (length (calls (snd (session_main acts (launch env n)))))
       (rev (acquired (calls (snd (run_test acts (launch env n)))))) \<and>
   released (calls (snd (session_main acts (launch env n)))) = [] \<and>
   prefix (acquired (calls (snd (run_test acts (launch env n))))) [Playwright, Browser, Context] \<and>
   released (calls (snd (run_test acts (launch env n)))) =
     closing env (length (calls (snd (session_main acts (launch env n)))))
       (rev (acquired (calls (snd (run_test acts (launch env n))))))"
proof -
  have p: "prefix (got env) [Playwright, Browser, Context]"
    by (simp add: got_def)
  note c = run_test_calls[of acts env n]
  have a: "acquired (calls (snd (run_test acts (launch env n)))) = got env"
    using c by (simp add: acquired_simps acquired_attempted)
  have r: "released (calls (snd (run_test acts (launch env n)))) =
     closing env (length (calls (snd (session_main acts (launch env n))))) (rev (got env))"
    using c by (simp add: released_simps released_attempted)
  show ?thesis unfolding a using c p r by simp
qed

text \<open>
  C7 as stated fails: when \<^verbatim>\<open>context.close()\<close> raises, the clause is left at once, and the
  browser and the driver, both acquired, are not released.
\<close>

theorem release_stops_at_failing_close_counterexample:
  "acquired (calls (snd (run_test body_TC002
      (launch (\<lambda>i c. case c of Close Context \<Rightarrow> Throws PlaywrightError | _ \<Rightarrow> Returns) 1)))) =
     [Playwright, Browser, Context] \<and>
   released (calls (snd (run_test body_TC002
      (launch (\<lambda>i c. case c of Close Context \<Rightarrow> Throws PlaywrightError | _ \<Rightarrow> Returns) 1)))) = []"
proof -
  let ?env = "\<lambda>(i::nat) c. case c of Close Context \<Rightarrow> Throws PlaywrightError | _ \<Rightarrow> Returns"
  let ?t = "snd (session_try body_TC002 (launch ?env 1))"
  have g: "got ?env = [Playwright, Browser, Context]" by (simp add: got_def)
  have e: "ended ?env [Playwright, Browser, Context] True True True ?t"
    using session_try_ended[of "launch ?env 1" body_TC002] unfolding launch_simps g by simp
  then have t: "replies ?t = ?env" "context_var ?t" "released (calls ?t) = []"
    by (simp_all add: ended_def)
  have f: "fst (close_if context_var Context ?t) = Inl PlaywrightError"
    using t by (simp add: close_if_run)
  then have "session_finally ?t = (Inl PlaywrightError, snd (close_if context_var Context ?t))"
    unfolding session_finally_def by (simp add: then_do_Inl)
  with close_if_released_Inl[OF f] t(3)
  have "released (calls (snd (session_finally ?t))) = []" by simp
  with run_test_resources[of body_TC002 ?env 1] g show ?thesis
    by (simp add: run_test_final)
qed

text \<open>
  Every call returns: all three are released, context first. \<^verbatim>\<open>browser.close()\<close> raises:
  the context is released, the browser and the driver are not. \<^verbatim>\<open>pw.stop()\<close> raises: the
  context and the browser are released. The browser does not launch: the driver, the one
  thing acquired, is released.
\<close>

theorem session_release_witness:
  "released (calls (snd (run_test body_TC002 (launch (\<lambda>i c. Returns) 1)))) =
     [Context, Browser, Playwright] \<and>
   released (calls (snd (run_test body_TC002
      (launch (\<lambda>i c. case c of Close Browser \<Rightarrow> Throws PlaywrightError | _ \<Rightarrow> Returns) 1)))) =
     [Context] \<and>
   released (calls (snd (run_test body_TC002
      (launch (\<lambda>i c. case c of Close Playwright \<Rightarrow> Throws PlaywrightError | _ \<Rightarrow> Returns) 1)))) =
     [Context, Browser] \<and>
   released (calls (snd (run_test body_TC002
      (launch (\<lambda>i c. case c of Launch_chromium \<Rightarrow> Throws PlaywrightError | _ \<Rightarrow> Returns) 1)))) =
     [Playwright]"
proof -
  let ?ok = "\<lambda>(i::nat) (c::ui_call). Returns"
  let ?cb = "\<lambda>(i::nat) c. case c of Close Browser \<Rightarrow> Throws PlaywrightError | _ \<Rightarrow> Returns"
  let ?cp = "\<lambda>(i::nat) c. case c of Close Playwright \<Rightarrow> Throws PlaywrightError | _ \<Rightarrow> Returns"
  let ?nb = "\<lambda>(i::nat) c. case c of Launch_chromium \<Rightarrow> Throws PlaywrightError | _ \<Rightarrow> Returns"
  have a1: "acquired (calls (snd (run_test body_TC002 (launch ?ok 1)))) = [Playwright, Browser, Context]"
    using run_test_resources[of body_TC002 ?ok 1] by (simp add: got_def)
  have 1: "released (calls (snd (run_test body_TC002 (launch ?ok 1)))) = [Context, Browser, Playwright]"
    using session_release[of body_TC002 ?ok 1, THEN conjunct2, THEN conjunct2, THEN conjunct2]
    unfolding a1 by simp
  have a2: "acquired (calls (snd (run_test body_TC002 (launch ?cb 1)))) = [Playwright, Browser, Context]"
    using run_test_resources[of body_TC002 ?cb 1] by (simp add: got_def)
  have 2: "released (calls (snd (run_test body_TC002 (launch ?cb 1)))) = [Context]"
    using session_release[of body_TC002 ?cb 1, THEN conjunct2, THEN conjunct2, THEN conjunct2]
    unfolding a2 by simp
  have a3: "acquired (calls (snd (run_test body_TC002 (launch ?cp 1)))) = [Playwright, Browser, Context]"
    using run_test_resources[of body_TC002 ?cp 1] by (simp add: got_def)
  have 3: "released (calls (snd (run_test body_TC002 (launch ?cp 1)))) = [Context, Browser]"
    using session_release[of body_TC002 ?cp 1, THEN conjunct2, THEN conjunct2, THEN conjunct2]
    unfolding a3 by simp
  have a4: "acquired (calls (snd (run_test body_TC002 (launch ?nb 1)))) = [Playwright]"
    using run_test_resources[of body_TC002 ?nb 1] by (simp add: got_def)
  have 4: "released (calls (snd (run_test body_TC002 (launch ?nb 1)))) = [Playwright]"
    using session_release[of body_TC002 ?nb 1, THEN conjunct2, THEN conjunct2, THEN conjunct2]
    unfolding a4 by simp
  from 1 2 3 4 show ?thesis by (intro conjI)
qed

end
